theory Spec2Isabelle
  imports Complex_Main
begin

section \<open>The driver of MALDER (AlderMain.cpp) as a traced, fallible computation\<close>

text \<open>
  The source file is the driver \<^verbatim>\<open>main\<close> of the program together with the helper
  \<^verbatim>\<open>subtract_freqs\<close>. Everything else it calls (the classes \<^verbatim>\<open>Alder\<close>,
  \<^verbatim>\<open>ExpFitALD\<close>, \<^verbatim>\<open>ProcessInput\<close>, \<^verbatim>\<open>AlderParams\<close>) lives in other
  translation units. The driver is modelled as it is written: what those collaborators return
  is a field of an environment record, every call and every message of the driver that matters
  is an event of a trace, \<^verbatim>\<open>fatalx\<close> is an error value, and a read outside a
  \<^verbatim>\<open>std::vector\<close> (undefined behaviour in C++) is the error \<open>Out_of_range\<close>.
\<close>

subsection \<open>Values\<close>

text \<open>
  A \<^verbatim>\<open>double\<close> that is compared with \<^verbatim>\<open>INFINITY\<close> (the fit-start distances):
  a real number or plus infinity, ordered as \<^verbatim>\<open><\<close> orders them. NaN and minus
  infinity are left out. The other doubles of the driver (weights, frequencies, bin size) are
  only passed on and are plain reals.
\<close>

datatype dbl = Fin real | PosInf

fun dbl_less :: "dbl \<Rightarrow> dbl \<Rightarrow> bool" where
  "dbl_less (Fin a) (Fin b) = (a < b)"
| "dbl_less (Fin a) PosInf = True"
| "dbl_less PosInf b = False"

text \<open>\<^verbatim>\<open>std::max(a, b)\<close> is \<^verbatim>\<open>(a < b) ? b : a\<close>.\<close>

definition dbl_max :: "dbl \<Rightarrow> dbl \<Rightarrow> dbl" where
  "dbl_max a b = (if dbl_less a b then b else a)"

text \<open>
  \<^verbatim>\<open>*max_element(v.begin(), v.end())\<close>: the scan keeps the first largest element;
  on an empty vector the iterator returned is \<^verbatim>\<open>end()\<close> and the dereference is undefined.
\<close>

fun max_scan :: "dbl \<Rightarrow> dbl list \<Rightarrow> dbl" where
  "max_scan largest [] = largest"
| "max_scan largest (x # xs) = max_scan (if dbl_less largest x then x else largest) xs"

fun max_element :: "dbl list \<Rightarrow> dbl option" where
  "max_element [] = None"
| "max_element (x # xs) = Some (max_scan x xs)"

datatype error =
    Mincount_exceeds_mixed   \<comment> \<open>fatalx: mincount must be <= num mixed indivs\<close>
  | No_ref_data              \<comment> \<open>fatalx: no data from ref populations\<close>
  | Mincount_below_4         \<comment> \<open>fatalx: mincount must be >= 4 to compute single-reference LD\<close>
  | Need_chroms              \<comment> \<open>fatalx: cannot test for admixture: need >= 2 chroms to jackknife\<close>
  | Out_of_range             \<comment> \<open>a vector read outside its bounds, or a read of an unset variable\<close>

text \<open>The labels of \<^verbatim>\<open>print_fit_diff\<close>: "1-ref " + ref_pop_names[r], or "2-ref".\<close>

datatype label = One_ref nat | Two_ref

text \<open>
  The events of a run: the calls the driver makes to its collaborators and the messages it
  prints itself, with the arguments that vary. A population name is given by the index of
  the reference; the arguments that are the same in every call (the digits of
  \<^verbatim>\<open>print_fit_diff\<close>, and \<^verbatim>\<open>maxdis\<close>, \<^verbatim>\<open>binsize\<close> and \<^verbatim>\<open>mincount\<close> of
  \<^verbatim>\<open>alder.run\<close>) are left out; banners, rules and timing lines are not events.
\<close>

datatype 'fit event =
    Warn_raw_output
  | Number_of_refs nat
  | Warn_jackknife
  | Form_1_ref | Form_2_ref | Form_multi
  | Run int "nat list" "real list" bool dbl
  | Output_curve_data
  | Plot_ascii_curve dbl
  | Write_raw_output
  | Print_fit 'fit bool
  | Cannot_test_chroms
  | Cannot_test_refgeno
  | Print_fit_header 'fit
  | Print_fit_diff 'fit 'fit string label label
  | Run_admixture_test 'fit 'fit 'fit nat nat bool real
  | Print_data_header
  | Mix_frac_bound 'fit
  | Pretest nat bool
  | Summary nat bool "real option"
  | Compute_mult_hyp_corr "bool list"

text \<open>The fields of \<^verbatim>\<open>AlderParams\<close> that the driver reads.\<close>

record params =
  mincount :: int
  weightname :: "string option"
  raw_outname :: "string option"
  print_raw_jackknife :: bool
  print_jackknife_fits :: bool
  use_naive_algo :: bool
  maxdis :: real
  binsize :: real
  mindis :: real
  approx_ld_corr :: bool

text \<open>
  What the collaborators hand to the driver. \<open>run\<close> is \<^verbatim>\<open>Alder::run\<close> with its
  arguments in the source's order (number of references, reference indices, weights, maxdis,
  binsize, mincount, use_naive_algo, fit start) and returns the two values it writes through
  its reference parameters, \<^verbatim>\<open>fits_all_starts\<close> and \<^verbatim>\<open>fit_test_ind\<close>; the
  \<^verbatim>\<open>AlderResults\<close> it returns are only printed and are not kept.
\<close>

record 'fit env =
  num_mixed_indivs :: int
  ref_freqs :: "real list list"
  process_weights :: "string \<Rightarrow> real list"
  get_num_chroms_used :: int
  find_ld_corr_stops :: "real \<Rightarrow> bool \<Rightarrow> real \<Rightarrow> dbl list"
  run :: "int \<Rightarrow> nat list \<Rightarrow> real list \<Rightarrow> real \<Rightarrow> real \<Rightarrow> int \<Rightarrow> bool \<Rightarrow> dbl
            \<Rightarrow> 'fit list \<times> int"
  test_and_print_oneref_curve :: "'fit \<Rightarrow> bool"
  zscore :: "'fit \<Rightarrow> string \<Rightarrow> real"
  compute_mult_hyp_corr :: "bool list \<Rightarrow> real"

subsection \<open>Traced computations that may abort\<close>

type_synonym ('fit, 'a) m = "'fit event list \<times> (error + 'a)"

definition ret :: "'a \<Rightarrow> ('fit, 'a) m" where
  "ret x = ([], Inr x)"

definition fatalx :: "error \<Rightarrow> ('fit, 'a) m" where
  "fatalx e = ([], Inl e)"

definition emit :: "'fit event \<Rightarrow> ('fit, unit) m" where
  "emit ev = ([ev], Inr ())"

definition bind :: "('fit, 'a) m \<Rightarrow> ('a \<Rightarrow> ('fit, 'b) m) \<Rightarrow> ('fit, 'b) m" where
  "bind c f = (case snd c of
                 Inl e \<Rightarrow> (fst c, Inl e)
               | Inr x \<Rightarrow> (fst c @ fst (f x), snd (f x)))"

definition seq :: "('fit, unit) m \<Rightarrow> ('fit, 'b) m \<Rightarrow> ('fit, 'b) m" where
  "seq c d = bind c (\<lambda>_. d)"

definition do_when :: "bool \<Rightarrow> ('fit, unit) m \<Rightarrow> ('fit, unit) m" where
  "do_when b c = (if b then c else ret ())"

fun for_each :: "'a list \<Rightarrow> ('a \<Rightarrow> ('fit, unit) m) \<Rightarrow> ('fit, unit) m" where
  "for_each [] f = ret ()"
| "for_each (x # xs) f = seq (f x) (for_each xs f)"

fun map_each :: "'a list \<Rightarrow> ('a \<Rightarrow> ('fit, 'b) m) \<Rightarrow> ('fit, 'b list) m" where
  "map_each [] f = ret []"
| "map_each (x # xs) f = bind (f x) (\<lambda>y. bind (map_each xs f) (\<lambda>ys. ret (y # ys)))"

text \<open>\<^verbatim>\<open>v[i]\<close> on a vector, with an \<^verbatim>\<open>int\<close> index.\<close>

definition vec_at :: "'a list \<Rightarrow> int \<Rightarrow> ('fit, 'a) m" where
  "vec_at v i = (if 0 \<le> i \<and> i < int (length v) then ret (v ! nat i) else fatalx Out_of_range)"

subsection \<open>subtract_freqs\<close>

definition subtract_freqs :: "real list list \<Rightarrow> nat \<Rightarrow> nat \<Rightarrow> ('fit, real list) m" where
  "subtract_freqs rf r1 r2 =
     bind (vec_at rf (int r1)) (\<lambda>f1.
     bind (vec_at rf (int r2)) (\<lambda>f2.
     map_each [0 ..< length f1] (\<lambda>s.
       bind (vec_at f2 (int s)) (\<lambda>b. ret (f1 ! s - b)))))"

subsection \<open>main: determining the number of references and the weights\<close>

text \<open>
  Lines 123 and 141-175. The result is \<^verbatim>\<open>(weights, num_alder_refs, ref_inds)\<close>;
  \<^verbatim>\<open>num_alder_refs\<close> keeps its initial value -1 with three or more references.
\<close>

definition check_mincount :: "'fit env \<Rightarrow> params \<Rightarrow> ('fit, unit) m" where
  "check_mincount e p =
     (if mincount p > num_mixed_indivs e then fatalx Mincount_exceeds_mixed else ret ())"

definition determine_refs :: "'fit env \<Rightarrow> params \<Rightarrow> ('fit, real list \<times> int \<times> nat list) m" where
  "determine_refs e p =
     (let num_ref_freqs = length (ref_freqs e) in
      case weightname p of
        Some w \<Rightarrow> ret (process_weights e w, 2, [])
      | None \<Rightarrow>
          if num_ref_freqs = 0 then fatalx No_ref_data
          else if num_ref_freqs = 1 then
            (if mincount p < 4 then fatalx Mincount_below_4
             else seq (emit (Number_of_refs num_ref_freqs)) (ret (ref_freqs e ! 0, 1, [0])))
          else if num_ref_freqs = 2 then
            bind (subtract_freqs (ref_freqs e) 0 1) (\<lambda>w.
            seq (emit (Number_of_refs num_ref_freqs)) (ret (w, 2, [0, 1])))
          else
            seq (do_when (raw_outname p \<noteq> None) (emit Warn_raw_output))
           (seq (emit (Number_of_refs num_ref_freqs)) (ret ([], - 1, []))))"

subsection \<open>main: calls shared by the branches\<close>

text \<open>A call of \<^verbatim>\<open>alder.run\<close> with the parameters the driver always passes on.\<close>

definition alder_run ::
  "'fit env \<Rightarrow> params \<Rightarrow> int \<Rightarrow> nat list \<Rightarrow> real list \<Rightarrow> dbl \<Rightarrow> ('fit, 'fit list \<times> int) m" where
  "alder_run e p num_refs inds weights start =
     seq (emit (Run num_refs inds weights (use_naive_algo p) start))
         (ret (run e num_refs inds weights (maxdis p) (binsize p) (mincount p)
                 (use_naive_algo p) start))"

definition print_fits :: "params \<Rightarrow> 'fit list \<Rightarrow> ('fit, unit) m" where
  "print_fits p fits = for_each fits (\<lambda>a. emit (Print_fit a (print_jackknife_fits p)))"

text \<open>
  \<^verbatim>\<open>fits_all_starts_refs[r][fit_test_ind_refs[r]]\<close>: the index of a reference that was
  never run is an unset variable.
\<close>

definition selected :: "'fit list \<Rightarrow> int option \<Rightarrow> ('fit, 'fit) m" where
  "selected fits ind = (case ind of None \<Rightarrow> fatalx Out_of_range | Some i \<Rightarrow> vec_at fits i)"

text \<open>
  The call of \<^verbatim>\<open>ExpFitALD::run_admixture_test\<close>: the two-reference fit, the two
  single-reference fits, the populations, the seventh argument (a flag) and the eighth (the
  multiple-hypothesis correction).
\<close>

definition admixture_test_call ::
  "'fit list \<Rightarrow> int option \<Rightarrow> 'fit list \<Rightarrow> int option \<Rightarrow> 'fit list \<Rightarrow> int option
     \<Rightarrow> nat \<Rightarrow> nat \<Rightarrow> bool \<Rightarrow> real \<Rightarrow> ('fit, unit) m" where
  "admixture_test_call fits ind fits1 ind1 fits2 ind2 r1 r2 flag corr =
     bind (selected fits ind) (\<lambda>a.
     bind (selected fits1 ind1) (\<lambda>a1.
     bind (selected fits2 ind2) (\<lambda>a2.
     emit (Run_admixture_test a a1 a2 r1 r2 flag corr))))"

subsection \<open>main: one or two references (lines 202-284)\<close>

definition oneref_run ::
  "'fit env \<Rightarrow> params \<Rightarrow> dbl list \<Rightarrow> nat \<Rightarrow> ('fit, 'fit list \<times> int) m" where
  "oneref_run e p fit_starts r =
     bind (vec_at (ref_freqs e) (int r)) (\<lambda>freqs.
     bind (vec_at fit_starts (int r)) (\<lambda>start.
     bind (alder_run e p 1 [r] freqs start) (\<lambda>res.
     seq (print_fits p (fst res)) (ret res))))"

definition compare_fits ::
  "'fit list \<Rightarrow> 'fit list \<Rightarrow> 'fit list \<Rightarrow> nat \<Rightarrow> nat \<Rightarrow> ('fit, unit) m" where
  "compare_fits fits fits1 fits2 r1 r2 =
     for_each [0 ..< length fits] (\<lambda>f.
       seq (emit (Print_fit_header (fits ! f)))
      (bind (vec_at fits1 (int f)) (\<lambda>a1.
       seq (emit (Print_fit_diff a1 (fits ! f) ''decay'' (One_ref r1) Two_ref))
      (bind (vec_at fits2 (int f)) (\<lambda>a2.
       seq (emit (Print_fit_diff a2 (fits ! f) ''decay'' (One_ref r2) Two_ref))
           (emit (Print_fit_diff a2 a1 ''decay'' (One_ref r2) (One_ref r1))))))))"

definition two_ref_test ::
  "'fit env \<Rightarrow> params \<Rightarrow> dbl list \<Rightarrow> 'fit list \<Rightarrow> int \<Rightarrow> ('fit, unit) m" where
  "two_ref_test e p fit_starts fits ind =
     bind (oneref_run e p fit_starts 0) (\<lambda>res0.
     bind (oneref_run e p fit_starts 1) (\<lambda>res1.
     seq (compare_fits fits (fst res0) (fst res1) 0 1)
    (seq (admixture_test_call fits (Some ind) (fst res0) (Some (snd res0))
            (fst res1) (Some (snd res1)) 0 1 True 1)
         (emit Print_data_header))))"

definition one_or_two_refs ::
  "'fit env \<Rightarrow> params \<Rightarrow> real list \<Rightarrow> int \<Rightarrow> nat list \<Rightarrow> dbl list \<Rightarrow> ('fit, unit) m" where
  "one_or_two_refs e p weights num_alder_refs ref_inds fit_starts =
     (case max_element fit_starts of
        None \<Rightarrow> fatalx Out_of_range
      | Some fit_start_dis \<Rightarrow>
          bind (alder_run e p num_alder_refs ref_inds weights fit_start_dis) (\<lambda>res.
          seq (emit Output_curve_data)
         (seq (emit (Plot_ascii_curve fit_start_dis))
         (seq (do_when (raw_outname p \<noteq> None) (emit Write_raw_output))
         (seq (print_fits p (fst res))
         (if num_alder_refs = 2 then
            (if get_num_chroms_used e < 2 then emit Cannot_test_chroms
             else if ref_inds = [] then emit Cannot_test_refgeno
             else two_ref_test e p fit_starts (fst res) (snd res))
          else
            bind (vec_at (fst res) (snd res)) (\<lambda>a. emit (Mix_frac_bound a))))))))"

subsection \<open>main: three or more references (lines 288-369)\<close>

text \<open>
  One round of the pre-test loop. The result is the triple
  \<^verbatim>\<open>(has_oneref_curve[r], fits_all_starts_refs[r], fit_test_ind_refs[r])\<close>.
\<close>

definition pretest ::
  "'fit env \<Rightarrow> params \<Rightarrow> dbl list \<Rightarrow> nat \<Rightarrow> ('fit, bool \<times> 'fit list \<times> int option) m" where
  "pretest e p fit_starts r =
     bind (vec_at fit_starts (int r)) (\<lambda>start.
     if start = PosInf then ret (False, [], None)
     else
       bind (alder_run e p 1 [r] (ref_freqs e ! r) start) (\<lambda>res.
       seq (print_fits p (fst res))
      (bind (vec_at (fst res) (snd res)) (\<lambda>a.
       seq (emit (Pretest r (test_and_print_oneref_curve e a)))
           (ret (test_and_print_oneref_curve e a, fst res, Some (snd res)))))))"

text \<open>
  The summary loop prints, for a reference that was pre-tested, the smaller of the z-scores of
  its decay and of its amplitude.
\<close>

definition summary ::
  "'fit env \<Rightarrow> dbl list \<Rightarrow> (bool \<times> 'fit list \<times> int option) list \<Rightarrow> nat \<Rightarrow> ('fit, unit) m" where
  "summary e fit_starts pre n =
     for_each [0 ..< n] (\<lambda>r.
       bind (vec_at fit_starts (int r)) (\<lambda>start.
       if start = PosInf then emit (Summary r (fst (pre ! r)) None)
       else bind (selected (fst (snd (pre ! r))) (snd (snd (pre ! r)))) (\<lambda>a.
            emit (Summary r (fst (pre ! r))
                    (Some (min (zscore e a ''decay'') (zscore e a ''amp_exp'')))))))"

definition pair_test ::
  "'fit env \<Rightarrow> params \<Rightarrow> dbl list \<Rightarrow> (bool \<times> 'fit list \<times> int option) list \<Rightarrow> real
     \<Rightarrow> nat \<Rightarrow> nat \<Rightarrow> ('fit, unit) m" where
  "pair_test e p fit_starts pre mult_hyp_corr r1 r2 =
     bind (vec_at fit_starts (int r1)) (\<lambda>s1.
     bind (vec_at fit_starts (int r2)) (\<lambda>s2.
     bind (subtract_freqs (ref_freqs e) r1 r2) (\<lambda>weights.
     bind (alder_run e p 2 [r1, r2] weights (dbl_max s1 s2)) (\<lambda>res.
     seq (emit (Plot_ascii_curve (dbl_max s1 s2)))
    (seq (print_fits p (fst res))
         (admixture_test_call (fst res) (Some (snd res))
            (fst (snd (pre ! r1))) (snd (snd (pre ! r1)))
            (fst (snd (pre ! r2))) (snd (snd (pre ! r2)))
            r1 r2 False mult_hyp_corr))))))"

definition pair_loop ::
  "'fit env \<Rightarrow> params \<Rightarrow> dbl list \<Rightarrow> (bool \<times> 'fit list \<times> int option) list \<Rightarrow> real
     \<Rightarrow> nat \<Rightarrow> ('fit, unit) m" where
  "pair_loop e p fit_starts pre mult_hyp_corr n =
     for_each [0 ..< n] (\<lambda>r1.
       if \<not> fst (pre ! r1) then ret ()
       else for_each [r1 + 1 ..< n] (\<lambda>r2.
         if \<not> fst (pre ! r2) then ret ()
         else pair_test e p fit_starts pre mult_hyp_corr r1 r2))"

definition multi_refs :: "'fit env \<Rightarrow> params \<Rightarrow> dbl list \<Rightarrow> ('fit, unit) m" where
  "multi_refs e p fit_starts =
     (let num_ref_freqs = length (ref_freqs e) in
      if get_num_chroms_used e < 2 then fatalx Need_chroms
      else
        bind (map_each [0 ..< num_ref_freqs] (pretest e p fit_starts)) (\<lambda>pre.
        seq (summary e fit_starts pre num_ref_freqs)
       (seq (emit (Compute_mult_hyp_corr (replicate num_ref_freqs True)))
       (seq (emit Print_data_header)
            (pair_loop e p fit_starts pre
               (compute_mult_hyp_corr e (replicate num_ref_freqs True)) num_ref_freqs)))))"

subsection \<open>main\<close>

definition main :: "'fit env \<Rightarrow> params \<Rightarrow> ('fit, unit) m" where
  "main e p =
     bind (check_mincount e p) (\<lambda>_.
     bind (determine_refs e p) (\<lambda>(weights, num_alder_refs, ref_inds).
     seq (do_when (get_num_chroms_used e < 2 \<and> print_raw_jackknife p) (emit Warn_jackknife))
    (seq (emit (if length (ref_freqs e) \<le> 2
                then (if num_alder_refs = 1 then Form_1_ref else Form_2_ref)
                else Form_multi))
         (if length (ref_freqs e) \<le> 2
          then one_or_two_refs e p weights num_alder_refs ref_inds
                 (find_ld_corr_stops e (binsize p) (approx_ld_corr p) (mindis p))
          else multi_refs e p
                 (find_ld_corr_stops e (binsize p) (approx_ld_corr p) (mindis p))))))"

section \<open>Notions used to state the properties\<close>

subsection \<open>Values the driver computes on the way\<close>

text \<open>The vector \<^verbatim>\<open>fit_starts\<close> of line 197.\<close>

definition starts :: "'fit env \<Rightarrow> params \<Rightarrow> dbl list" where
  "starts e p = find_ld_corr_stops e (binsize p) (approx_ld_corr p) (mindis p)"

text \<open>What \<^verbatim>\<open>alder.run\<close> returns when called as the driver calls it.\<close>

definition run_with ::
  "'fit env \<Rightarrow> params \<Rightarrow> int \<Rightarrow> nat list \<Rightarrow> real list \<Rightarrow> dbl \<Rightarrow> 'fit list \<times> int" where
  "run_with e p k inds w d =
     run e k inds w (maxdis p) (binsize p) (mincount p) (use_naive_algo p) d"

text \<open>The fit \<^verbatim>\<open>fits_all_starts[fit_test_ind]\<close> of a run.\<close>

definition chosen :: "'fit list \<times> int \<Rightarrow> 'fit" where
  "chosen res = fst res ! nat (snd res)"

text \<open>The weights \<^verbatim>\<open>subtract_freqs\<close> returns when both rows exist and are equally long.\<close>

definition freq_diff :: "real list list \<Rightarrow> nat \<Rightarrow> nat \<Rightarrow> real list" where
  "freq_diff rf r1 r2 = map (\<lambda>s. rf ! r1 ! s - rf ! r2 ! s) [0 ..< length (rf ! r1)]"

text \<open>The single-reference run of reference \<open>r\<close> (lines 242 and 308).\<close>

definition oneref_result :: "'fit env \<Rightarrow> params \<Rightarrow> nat \<Rightarrow> 'fit list \<times> int" where
  "oneref_result e p r = run_with e p 1 [r] (ref_freqs e ! r) (starts e p ! r)"

text \<open>
  The entry \<^verbatim>\<open>has_oneref_curve[r]\<close> after the pre-test loop (lines 302-319): false for an
  infinite start distance, the verdict of \<^verbatim>\<open>test_and_print_oneref_curve\<close> otherwise.
\<close>

definition has_oneref_curve :: "'fit env \<Rightarrow> params \<Rightarrow> nat \<Rightarrow> bool" where
  "has_oneref_curve e p r =
     (starts e p ! r \<noteq> PosInf \<and> test_and_print_oneref_curve e (chosen (oneref_result e p r)))"

definition pre_of :: "'fit env \<Rightarrow> params \<Rightarrow> nat \<Rightarrow> bool \<times> 'fit list \<times> int option" where
  "pre_of e p r =
     (if starts e p ! r = PosInf then (False, [], None)
      else (test_and_print_oneref_curve e (chosen (oneref_result e p r)),
            fst (oneref_result e p r), Some (snd (oneref_result e p r))))"

subsection \<open>What the collaborators must deliver for the driver to stay within its vectors\<close>

text \<open>
  The driver reads \<^verbatim>\<open>fits_all_starts[fit_test_ind]\<close> unchecked, walks the
  single-reference fits with the indices of the two-reference fits, and subtracts frequency
  rows position by position. These three conditions on \<^verbatim>\<open>Alder::run\<close> and on
  \<^verbatim>\<open>ProcessInput::process_geno\<close> keep those reads in range.
\<close>

definition run_index_ok :: "'fit env \<Rightarrow> bool" where
  "run_index_ok e =
     (\<forall>k inds w md bs mc nv d.
        0 \<le> snd (run e k inds w md bs mc nv d)
        \<and> snd (run e k inds w md bs mc nv d) < int (length (fst (run e k inds w md bs mc nv d))))"

definition run_same_length :: "'fit env \<Rightarrow> bool" where
  "run_same_length e =
     (\<forall>k inds w md bs mc nv d k' inds' w' md' bs' mc' nv' d'.
        length (fst (run e k inds w md bs mc nv d))
          = length (fst (run e k' inds' w' md' bs' mc' nv' d')))"

definition freqs_aligned :: "'fit env \<Rightarrow> bool" where
  "freqs_aligned e = (\<forall>f \<in> set (ref_freqs e). \<forall>g \<in> set (ref_freqs e). length f = length g)"

subsection \<open>Pieces of the trace\<close>

definition form_events :: "'fit env \<Rightarrow> params \<Rightarrow> int \<Rightarrow> 'fit event list" where
  "form_events e p k =
     (if get_num_chroms_used e < 2 \<and> print_raw_jackknife p then [Warn_jackknife] else [])
     @ [if length (ref_freqs e) \<le> 2 then (if k = 1 then Form_1_ref else Form_2_ref)
        else Form_multi]"

text \<open>Computing, printing and fitting the curve in the one-or-two-reference branch.\<close>

definition curve_events ::
  "'fit env \<Rightarrow> params \<Rightarrow> int \<Rightarrow> nat list \<Rightarrow> real list \<Rightarrow> dbl \<Rightarrow> 'fit event list" where
  "curve_events e p k inds w d =
     [Run k inds w (use_naive_algo p) d, Output_curve_data, Plot_ascii_curve d]
     @ (if raw_outname p \<noteq> None then [Write_raw_output] else [])
     @ map (\<lambda>a. Print_fit a (print_jackknife_fits p)) (fst (run_with e p k inds w d))"

text \<open>The three differences printed for the fit-start offset \<open>f\<close> (lines 259-265).\<close>

definition fit_diffs ::
  "'fit list \<Rightarrow> 'fit list \<Rightarrow> 'fit list \<Rightarrow> nat \<Rightarrow> nat \<Rightarrow> nat \<Rightarrow> 'fit event list" where
  "fit_diffs fits fits1 fits2 r1 r2 f =
     [Print_fit_diff (fits1 ! f) (fits ! f) ''decay'' (One_ref r1) Two_ref,
      Print_fit_diff (fits2 ! f) (fits ! f) ''decay'' (One_ref r2) Two_ref,
      Print_fit_diff (fits2 ! f) (fits1 ! f) ''decay'' (One_ref r2) (One_ref r1)]"

definition two_ref_test_events ::
  "'fit env \<Rightarrow> params \<Rightarrow> dbl list \<Rightarrow> 'fit list \<times> int \<Rightarrow> 'fit event list" where
  "two_ref_test_events e p fs res =
     (let res0 = run_with e p 1 [0] (ref_freqs e ! 0) (fs ! 0);
          res1 = run_with e p 1 [1] (ref_freqs e ! 1) (fs ! 1)
      in Run 1 [0] (ref_freqs e ! 0) (use_naive_algo p) (fs ! 0)
           # map (\<lambda>a. Print_fit a (print_jackknife_fits p)) (fst res0)
         @ Run 1 [1] (ref_freqs e ! 1) (use_naive_algo p) (fs ! 1)
           # map (\<lambda>a. Print_fit a (print_jackknife_fits p)) (fst res1)
         @ concat (map (\<lambda>f. Print_fit_header (fst res ! f)
                              # fit_diffs (fst res) (fst res0) (fst res1) 0 1 f)
                     [0 ..< length (fst res)])
         @ [Run_admixture_test (chosen res) (chosen res0) (chosen res1) 0 1 True 1,
            Print_data_header])"

definition pretest_events :: "'fit env \<Rightarrow> params \<Rightarrow> nat \<Rightarrow> 'fit event list" where
  "pretest_events e p r =
     (if starts e p ! r = PosInf then []
      else Run 1 [r] (ref_freqs e ! r) (use_naive_algo p) (starts e p ! r)
             # map (\<lambda>a. Print_fit a (print_jackknife_fits p)) (fst (oneref_result e p r))
             @ [Pretest r (test_and_print_oneref_curve e (chosen (oneref_result e p r)))])"

definition pair_events :: "'fit env \<Rightarrow> params \<Rightarrow> real \<Rightarrow> nat \<Rightarrow> nat \<Rightarrow> 'fit event list" where
  "pair_events e p c r1 r2 =
     (let d = dbl_max (starts e p ! r1) (starts e p ! r2);
          res = run_with e p 2 [r1, r2] (freq_diff (ref_freqs e) r1 r2) d
      in Run 2 [r1, r2] (freq_diff (ref_freqs e) r1 r2) (use_naive_algo p) d
           # Plot_ascii_curve d
           # map (\<lambda>a. Print_fit a (print_jackknife_fits p)) (fst res)
           @ [Run_admixture_test (chosen res) (chosen (oneref_result e p r1))
                (chosen (oneref_result e p r2)) r1 r2 False c])"

subsection \<open>Reading a trace\<close>

fun is_fit_diff :: "'fit event \<Rightarrow> bool" where
  "is_fit_diff (Print_fit_diff a b s l1 l2) = True"
| "is_fit_diff ev = False"

fun is_admixture_test :: "'fit event \<Rightarrow> bool" where
  "is_admixture_test (Run_admixture_test a a1 a2 r1 r2 flag c) = True"
| "is_admixture_test ev = False"

fun is_run :: "'fit event \<Rightarrow> bool" where
  "is_run (Run k inds w nv d) = True"
| "is_run ev = False"

text \<open>The pairs of references handed to \<^verbatim>\<open>run_admixture_test\<close>, in order.\<close>

fun tested :: "'fit event \<Rightarrow> (nat \<times> nat) list" where
  "tested (Run_admixture_test a a1 a2 r1 r2 flag c) = [(r1, r2)]"
| "tested ev = []"

definition tested_pairs :: "'fit event list \<Rightarrow> (nat \<times> nat) list" where
  "tested_pairs t = concat (map tested t)"

text \<open>The pairs \<open>r1 < r2\<close> of references that both have a single-reference curve.\<close>

definition eligible_pairs :: "'fit env \<Rightarrow> params \<Rightarrow> (nat \<times> nat) list" where
  "eligible_pairs e p =
     concat (map (\<lambda>r1. concat (map (\<lambda>r2.
        if has_oneref_curve e p r1 \<and> has_oneref_curve e p r2 then [(r1, r2)] else [])
          [r1 + 1 ..< length (ref_freqs e)])) [0 ..< length (ref_freqs e)])"

text \<open>
  \<open>sat P Q c\<close>: every event of the computation \<open>c\<close> satisfies \<open>P\<close>, and if \<open>c\<close> aborts,
  its error satisfies \<open>Q\<close>.
\<close>

definition sat :: "('fit event \<Rightarrow> bool) \<Rightarrow> (error \<Rightarrow> bool) \<Rightarrow> ('fit, 'a) m \<Rightarrow> bool" where
  "sat P Q c = ((\<forall>ev \<in> set (fst c). P ev) \<and> (\<forall>err. snd c = Inl err \<longrightarrow> Q err))"

definition two_ref_start_ok :: "nat \<Rightarrow> dbl list \<Rightarrow> 'fit event \<Rightarrow> bool" where
  "two_ref_start_ok n fs ev =
     (case ev of
        Run k inds w nv d \<Rightarrow>
          k = 2 \<longrightarrow>
            (if n \<le> 2 then max_element fs = Some d
             else \<exists>r1 r2. inds = [r1, r2] \<and> r1 < r2 \<and> r2 < n \<and> r2 < length fs
                    \<and> d = dbl_max (fs ! r1) (fs ! r2))
      | _ \<Rightarrow> True)"

definition test_args_ok :: "'fit env \<Rightarrow> 'fit event \<Rightarrow> bool" where
  "test_args_ok e ev =
     (case ev of
        Run_admixture_test a a1 a2 r1 r2 flag c \<Rightarrow>
          (if length (ref_freqs e) \<le> 2 then flag \<and> c = 1
           else \<not> flag \<and> c = compute_mult_hyp_corr e (replicate (length (ref_freqs e)) True))
      | Compute_mult_hyp_corr used \<Rightarrow> used = replicate (length (ref_freqs e)) True
      | _ \<Rightarrow> True)"




subsection \<open>Concrete runs\<close>

text \<open>
  A small world to run the driver in: a fit is named by the references it was computed from
  and its fit-start offset, every run tries two offsets and selects the second, the pre-test
  fails for exactly one reference \<open>bad\<close>, and the multiple-hypothesis correction is the number
  of references marked as used.
\<close>

definition demo_params :: params where
  "demo_params = \<lparr>mincount = 4, weightname = None, raw_outname = None,
     print_raw_jackknife = False, print_jackknife_fits = False, use_naive_algo = False,
     maxdis = 1 / 2, binsize = 1 / 2000, mindis = - 1, approx_ld_corr = True\<rparr>"

definition demo_run ::
  "int \<Rightarrow> nat list \<Rightarrow> real list \<Rightarrow> real \<Rightarrow> real \<Rightarrow> int \<Rightarrow> bool \<Rightarrow> dbl
     \<Rightarrow> (nat list \<times> nat) list \<times> int" where
  "demo_run k inds w md bs mc nv d = ([(inds, 0), (inds, 1)], 1)"

definition used_count :: "bool list \<Rightarrow> real" where
  "used_count used = real (length (filter id used))"

definition demo_env ::
  "real list list \<Rightarrow> int \<Rightarrow> dbl list \<Rightarrow> nat \<Rightarrow> (nat list \<times> nat) env" where
  "demo_env rf chroms fs bad =
     \<lparr>num_mixed_indivs = 20, ref_freqs = rf, process_weights = (\<lambda>_. [1, - 1]),
      get_num_chroms_used = chroms, find_ld_corr_stops = (\<lambda>_ _ _. fs), run = demo_run,
      test_and_print_oneref_curve = (\<lambda>a. fst a \<noteq> [bad]),
      zscore = (\<lambda>a s. if s = ''decay'' then 3 else 4),
      compute_mult_hyp_corr = used_count\<rparr>"

definition two_refs :: "(nat list \<times> nat) env" where
  "two_refs = demo_env [[1 / 2, 1 / 4], [1 / 4, 1 / 4]] 22 [Fin (1 / 200), Fin (1 / 100)] 7"

definition two_refs_one_chrom :: "(nat list \<times> nat) env" where
  "two_refs_one_chrom =
     demo_env [[1 / 2, 1 / 4], [1 / 4, 1 / 4]] 1 [Fin (1 / 200), Fin (1 / 100)] 7"

definition three_refs :: "(nat list \<times> nat) env" where
  "three_refs =
     demo_env [[1 / 2, 1 / 4], [1 / 4, 1 / 4], [1 / 8, 1]] 22
       [Fin (1 / 200), Fin (1 / 100), PosInf] 7"

definition three_refs_one_chrom :: "(nat list \<times> nat) env" where
  "three_refs_one_chrom =
     demo_env [[1 / 2, 1 / 4], [1 / 4, 1 / 4], [1 / 8, 1]] 1
       [Fin (1 / 200), Fin (1 / 100), PosInf] 7"

definition four_refs :: "(nat list \<times> nat) env" where
  "four_refs =
     demo_env [[1 / 2, 1 / 4], [1 / 4, 1 / 4], [1 / 8, 1], [1 / 3, 1 / 3]] 22
       [Fin (1 / 200), Fin (1 / 100), PosInf, Fin (1 / 50)] 1"

definition no_refs :: "int \<Rightarrow> (nat list \<times> nat) env" where
  "no_refs chroms = demo_env [] chroms [Fin (1 / 200)] 7"

definition weights_params :: params where
  "weights_params = demo_params\<lparr>weightname := Some ''weights.txt''\<rparr>"



section \<open>Lemmas\<close>

subsection \<open>Sequencing\<close>

lemma bind_ret [simp]: "bind (ret x) f = f x"
  by (simp add: bind_def ret_def)

lemma bind_fatalx [simp]: "bind (fatalx err) f = fatalx err"
  by (simp add: bind_def fatalx_def)

lemma seq_ret [simp]: "seq (ret x) d = d"
  by (simp add: seq_def)

lemma seq_fatalx [simp]: "seq (fatalx err) d = fatalx err"
  by (simp add: seq_def)

lemma seq_emit [simp]: "seq (emit ev) d = (ev # fst d, snd d)"
  by (simp add: seq_def bind_def emit_def)

lemma bind_emit [simp]: "bind (emit ev) f = (ev # fst (f ()), snd (f ()))"
  by (simp add: bind_def emit_def)

lemma fst_ret [simp]: "fst (ret x) = []" and snd_ret [simp]: "snd (ret x) = Inr x"
  by (simp_all add: ret_def)

lemma fst_fatalx [simp]: "fst (fatalx err) = []"
  and snd_fatalx [simp]: "snd (fatalx err) = Inl err"
  by (simp_all add: fatalx_def)

lemma fst_emit [simp]: "fst (emit ev) = [ev]" and snd_emit [simp]: "snd (emit ev) = Inr ()"
  by (simp_all add: emit_def)

lemma bind_Inl [simp]: "bind (t, Inl err) f = (t, Inl err)"
  by (simp add: bind_def)

lemma bind_Inr [simp]: "bind (t, Inr x) f = (t @ fst (f x), snd (f x))"
  by (simp add: bind_def)

lemma seq_Inl [simp]: "seq (t, Inl err) d = (t, Inl err)"
  by (simp add: seq_def)

lemma seq_Inr [simp]: "seq (t, Inr x) d = (t @ fst d, snd d)"
  by (simp add: seq_def)

lemma bind_ok: "snd c = Inr x \<Longrightarrow> bind c f = (fst c @ fst (f x), snd (f x))"
  by (simp add: bind_def)

lemma bind_err: "snd c = Inl err \<Longrightarrow> bind c f = (fst c, Inl err)"
  by (simp add: bind_def)

lemma do_when_emit: "do_when b (emit ev) = (if b then [ev] else [], Inr ())"
  by (simp add: do_when_def emit_def ret_def)

lemma for_each_emit: "for_each xs (\<lambda>x. emit (g x)) = (map g xs, Inr ())"
  by (induction xs) (simp_all add: ret_def)

lemma for_each_eq:
  "(\<And>x. x \<in> set xs \<Longrightarrow> f x = (t x, Inr ())) \<Longrightarrow>
   for_each xs f = (concat (map t xs), Inr ())"
  by (induction xs) (simp_all add: ret_def)

lemma map_each_eq:
  "(\<And>x. x \<in> set xs \<Longrightarrow> f x = (t x, Inr (g x))) \<Longrightarrow>
   map_each xs f = (concat (map t xs), Inr (map g xs))"
  by (induction xs) (simp_all add: ret_def)

lemma vec_at_nat: "i < length v \<Longrightarrow> vec_at v (int i) = ([], Inr (v ! i))"
  by (simp add: vec_at_def ret_def)

lemma vec_at_ok: "0 \<le> i \<Longrightarrow> i < int (length v) \<Longrightarrow> vec_at v i = ([], Inr (v ! nat i))"
  by (simp add: vec_at_def ret_def)

lemma vec_at_Inr: "snd (vec_at v i) = Inr x \<Longrightarrow> 0 \<le> i \<and> i < int (length v) \<and> x = v ! nat i"
  by (simp add: vec_at_def split: if_splits)

lemma selected_eq:
  "0 \<le> i \<Longrightarrow> i < int (length fits) \<Longrightarrow> selected fits (Some i) = ([], Inr (fits ! nat i))"
  by (simp add: selected_def vec_at_ok)

subsection \<open>Properties of every event, and of every error\<close>

lemma sat_ret [simp]: "sat P Q (ret x)"
  by (simp add: sat_def)

lemma sat_fatalx [simp]: "sat P Q (fatalx err) = Q err"
  by (simp add: sat_def)

lemma sat_emit [simp]: "sat P Q (emit ev) = P ev"
  by (simp add: sat_def)

lemma sat_event: "sat P Q c \<Longrightarrow> ev \<in> set (fst c) \<Longrightarrow> P ev"
  by (simp add: sat_def)

lemma sat_bind:
  assumes "sat P Q c" and "\<And>x. snd c = Inr x \<Longrightarrow> sat P Q (f x)"
  shows "sat P Q (bind c f)"
proof (cases "snd c")
  case (Inl err)
  with assms(1) show ?thesis by (simp add: bind_err sat_def)
next
  case (Inr x)
  with assms show ?thesis by (auto simp: bind_ok sat_def)
qed

lemma sat_seq: "sat P Q c \<Longrightarrow> sat P Q d \<Longrightarrow> sat P Q (seq c d)"
  unfolding seq_def by (rule sat_bind)

lemma sat_do_when: "(b \<Longrightarrow> sat P Q c) \<Longrightarrow> sat P Q (do_when b c)"
  by (simp add: do_when_def)

lemma sat_for_each: "(\<And>x. x \<in> set xs \<Longrightarrow> sat P Q (f x)) \<Longrightarrow> sat P Q (for_each xs f)"
  by (induction xs) (auto intro: sat_seq)

lemma sat_map_each: "(\<And>x. x \<in> set xs \<Longrightarrow> sat P Q (f x)) \<Longrightarrow> sat P Q (map_each xs f)"
  by (induction xs) (auto intro!: sat_bind)

lemma sat_vec_at: "Q Out_of_range \<Longrightarrow> sat P Q (vec_at v i)"
  by (simp add: vec_at_def)

lemma sat_selected: "Q Out_of_range \<Longrightarrow> sat P Q (selected fits ind)"
  by (cases ind) (simp_all add: selected_def sat_vec_at)

lemma sat_subtract_freqs: "Q Out_of_range \<Longrightarrow> sat P Q (subtract_freqs rf r1 r2)"
  unfolding subtract_freqs_def
  by (intro sat_bind sat_map_each sat_vec_at sat_ret)

lemma sat_print_fits: "(\<And>a b. P (Print_fit a b)) \<Longrightarrow> sat P Q (print_fits p fits)"
  unfolding print_fits_def by (rule sat_for_each) simp

lemma sat_alder_run:
  "P (Run n inds w (use_naive_algo p) start) \<Longrightarrow> sat P Q (alder_run e p n inds w start)"
  by (simp add: alder_run_def sat_def)

lemma sat_if:
  "(b \<Longrightarrow> sat P Q c) \<Longrightarrow> (\<not> b \<Longrightarrow> sat P Q d) \<Longrightarrow> sat P Q (if b then c else d)"
  by simp

lemma sat_case_option:
  "(x = None \<Longrightarrow> sat P Q c) \<Longrightarrow> (\<And>y. x = Some y \<Longrightarrow> sat P Q (f y))
     \<Longrightarrow> sat P Q (case x of None \<Rightarrow> c | Some y \<Rightarrow> f y)"
  by (cases x) simp_all

lemma sat_case_prod3:
  "(\<And>a b c. x = (a, b, c) \<Longrightarrow> sat P Q (f a b c))
     \<Longrightarrow> sat P Q (case x of (a, b, c) \<Rightarrow> f a b c)"
  by (cases x) simp

lemmas sat_intros =
  sat_bind sat_seq sat_do_when sat_for_each sat_map_each sat_vec_at sat_selected
  sat_subtract_freqs sat_print_fits sat_alder_run sat_if sat_case_option sat_case_prod3

subsection \<open>The order on distances\<close>

lemma dbl_less_irrefl [simp]: "\<not> dbl_less a a"
  by (cases a) simp_all

lemma dbl_not_less_trans: "\<not> dbl_less a b \<Longrightarrow> \<not> dbl_less b c \<Longrightarrow> \<not> dbl_less a c"
  by (cases a; cases b; cases c) simp_all

lemma dbl_less_not_sym: "dbl_less a b \<Longrightarrow> \<not> dbl_less b a"
  by (cases a; cases b) simp_all

lemma max_scan_mem: "max_scan a xs \<in> set (a # xs)"
  by (induction xs arbitrary: a) (simp, force)

lemma max_scan_ge_start: "\<not> dbl_less (max_scan a xs) a"
proof (induction xs arbitrary: a)
  case Nil
  show ?case by simp
next
  case (Cons x xs)
  show ?case
  proof (cases "dbl_less a x")
    case True
    have "\<not> dbl_less (max_scan x xs) x" by (rule Cons.IH)
    moreover have "\<not> dbl_less x a" using True by (rule dbl_less_not_sym)
    ultimately have "\<not> dbl_less (max_scan x xs) a" by (rule dbl_not_less_trans)
    with True show ?thesis by simp
  next
    case False
    with Cons.IH [of a] show ?thesis by simp
  qed
qed

lemma max_scan_ge_all: "x \<in> set xs \<Longrightarrow> \<not> dbl_less (max_scan a xs) x"
proof (induction xs arbitrary: a)
  case Nil
  then show ?case by simp
next
  case (Cons y ys)
  let ?b = "if dbl_less a y then y else a"
  show ?case
  proof (cases "x = y")
    case True
    have "\<not> dbl_less (max_scan ?b ys) ?b" by (rule max_scan_ge_start)
    moreover have "\<not> dbl_less ?b y" by simp
    ultimately have "\<not> dbl_less (max_scan ?b ys) y" by (rule dbl_not_less_trans)
    with True show ?thesis by simp
  next
    case False
    with Cons.prems have "x \<in> set ys" by simp
    then have "\<not> dbl_less (max_scan ?b ys) x" by (rule Cons.IH)
    then show ?thesis by simp
  qed
qed

lemma max_element_is_max:
  assumes "max_element xs = Some d"
  shows "d \<in> set xs \<and> (\<forall>x \<in> set xs. \<not> dbl_less d x)"
proof (cases xs)
  case Nil
  with assms show ?thesis by simp
next
  case (Cons a as)
  with assms have d: "d = max_scan a as" by simp
  show ?thesis
    using max_scan_mem [of a as] max_scan_ge_start [of a as] max_scan_ge_all [of _ as a]
    unfolding d Cons by auto
qed

lemma dbl_max_is_max:
  "dbl_max a b \<in> {a, b} \<and> \<not> dbl_less (dbl_max a b) a \<and> \<not> dbl_less (dbl_max a b) b"
  by (auto simp: dbl_max_def dest: dbl_less_not_sym)

subsection \<open>Every event of main\<close>

lemma sat_one_or_two_start:
  "length (ref_freqs e) \<le> 2 \<Longrightarrow>
   sat (two_ref_start_ok (length (ref_freqs e)) fs) (\<lambda>_. True) (one_or_two_refs e p w k inds fs)"
  unfolding one_or_two_refs_def two_ref_test_def oneref_run_def compare_fits_def
    admixture_test_call_def
  by (intro sat_intros; simp add: two_ref_start_ok_def)

lemma sat_multi_start:
  "\<not> length (ref_freqs e) \<le> 2 \<Longrightarrow>
   sat (two_ref_start_ok (length (ref_freqs e)) fs) (\<lambda>_. True) (multi_refs e p fs)"
  unfolding multi_refs_def pretest_def summary_def pair_loop_def pair_test_def
    admixture_test_call_def Let_def
  by (intro sat_intros; (simp add: two_ref_start_ok_def)?; (auto dest!: vec_at_Inr)?)

lemma sat_main_start:
  "sat (two_ref_start_ok (length (ref_freqs e)) (starts e p)) (\<lambda>_. True) (main e p)"
  unfolding main_def check_mincount_def determine_refs_def Let_def starts_def [symmetric]
  by (intro sat_intros sat_one_or_two_start sat_multi_start sat_ret sat_case_prod3;
      (simp add: two_ref_start_ok_def)?)

lemma sat_one_or_two_test:
  "length (ref_freqs e) \<le> 2 \<Longrightarrow>
   sat (test_args_ok e) (\<lambda>_. True) (one_or_two_refs e p w k inds fs)"
  unfolding one_or_two_refs_def two_ref_test_def oneref_run_def compare_fits_def
    admixture_test_call_def
  by (intro sat_intros; simp add: test_args_ok_def)

lemma sat_multi_test:
  "\<not> length (ref_freqs e) \<le> 2 \<Longrightarrow>
   sat (test_args_ok e) (\<lambda>_. True) (multi_refs e p fs)"
  unfolding multi_refs_def pretest_def summary_def pair_loop_def pair_test_def
    admixture_test_call_def Let_def
  by (intro sat_intros; simp add: test_args_ok_def)

lemma sat_main_test: "sat (test_args_ok e) (\<lambda>_. True) (main e p)"
  unfolding main_def check_mincount_def determine_refs_def Let_def
  by (intro sat_intros sat_one_or_two_test sat_multi_test sat_ret sat_case_prod3;
      (simp add: test_args_ok_def)?)

subsection \<open>Every error of main\<close>





subsection \<open>The trace of the one-or-two-reference branch\<close>

lemma print_fits_eq:
  "print_fits p fits = (map (\<lambda>a. Print_fit a (print_jackknife_fits p)) fits, Inr ())"
  by (simp add: print_fits_def for_each_emit)

lemma alder_run_eq:
  "alder_run e p k inds w d =
     ([Run k inds w (use_naive_algo p) d], Inr (run_with e p k inds w d))"
  by (simp add: alder_run_def run_with_def ret_def)

lemma run_with_index:
  "run_index_ok e \<Longrightarrow> 0 \<le> snd (run_with e p k inds w d)
     \<and> snd (run_with e p k inds w d) < int (length (fst (run_with e p k inds w d)))"
  unfolding run_index_ok_def run_with_def by blast

lemma run_with_length:
  "run_same_length e \<Longrightarrow>
   length (fst (run_with e p k inds w d)) = length (fst (run_with e p k' inds' w' d'))"
  unfolding run_same_length_def run_with_def by blast

lemma subtract_freqs_eq:
  assumes "freqs_aligned e" "r1 < length (ref_freqs e)" "r2 < length (ref_freqs e)"
  shows "subtract_freqs (ref_freqs e) r1 r2 = ([], Inr (freq_diff (ref_freqs e) r1 r2))"
proof -
  from assms have len: "length (ref_freqs e ! r1) = length (ref_freqs e ! r2)"
    unfolding freqs_aligned_def by (meson nth_mem)
  have inner: "map_each [0 ..< length (ref_freqs e ! r1)]
          (\<lambda>s. bind (vec_at (ref_freqs e ! r2) (int s)) (\<lambda>b. ret (ref_freqs e ! r1 ! s - b)))
        = (concat (map (\<lambda>s. []) [0 ..< length (ref_freqs e ! r1)]),
           Inr (map (\<lambda>s. ref_freqs e ! r1 ! s - ref_freqs e ! r2 ! s)
                  [0 ..< length (ref_freqs e ! r1)]))"
    by (rule map_each_eq) (simp add: vec_at_nat len ret_def)
  show ?thesis
    using assms(2,3) unfolding subtract_freqs_def freq_diff_def
    by (simp add: vec_at_nat inner)
qed

lemma oneref_run_eq:
  assumes "r < length (ref_freqs e)" "r < length fs"
  shows "oneref_run e p fs r =
           (Run 1 [r] (ref_freqs e ! r) (use_naive_algo p) (fs ! r)
              # map (\<lambda>a. Print_fit a (print_jackknife_fits p))
                  (fst (run_with e p 1 [r] (ref_freqs e ! r) (fs ! r))),
            Inr (run_with e p 1 [r] (ref_freqs e ! r) (fs ! r)))"
  using assms by (simp add: oneref_run_def vec_at_nat alder_run_eq print_fits_eq ret_def)

lemma compare_fits_eq:
  assumes "length fits \<le> length fits1" "length fits \<le> length fits2"
  shows "compare_fits fits fits1 fits2 r1 r2 =
           (concat (map (\<lambda>f. Print_fit_header (fits ! f) # fit_diffs fits fits1 fits2 r1 r2 f)
                      [0 ..< length fits]), Inr ())"
  unfolding compare_fits_def
  by (rule for_each_eq) (use assms in \<open>simp add: vec_at_nat fit_diffs_def\<close>)

lemma one_or_two_refs_eq:
  assumes "max_element fs = Some d"
  shows "one_or_two_refs e p w k inds fs =
     (curve_events e p k inds w d
        @ fst (if k = 2 then
                 (if get_num_chroms_used e < 2 then emit Cannot_test_chroms
                  else if inds = [] then emit Cannot_test_refgeno
                  else two_ref_test e p fs (fst (run_with e p k inds w d))
                         (snd (run_with e p k inds w d)))
               else bind (vec_at (fst (run_with e p k inds w d)) (snd (run_with e p k inds w d)))
                      (\<lambda>a. emit (Mix_frac_bound a))),
      snd (if k = 2 then
                 (if get_num_chroms_used e < 2 then emit Cannot_test_chroms
                  else if inds = [] then emit Cannot_test_refgeno
                  else two_ref_test e p fs (fst (run_with e p k inds w d))
                         (snd (run_with e p k inds w d)))
               else bind (vec_at (fst (run_with e p k inds w d)) (snd (run_with e p k inds w d)))
                      (\<lambda>a. emit (Mix_frac_bound a))))"
  using assms
  by (simp add: one_or_two_refs_def alder_run_eq print_fits_eq do_when_emit curve_events_def
        del: One_nat_def)

lemma one_or_two_refs_cannot:
  assumes "max_element fs = Some d" "get_num_chroms_used e < 2 \<or> inds = []"
  shows "one_or_two_refs e p w 2 inds fs =
     (curve_events e p 2 inds w d
        @ [if get_num_chroms_used e < 2 then Cannot_test_chroms else Cannot_test_refgeno],
      Inr ())"
  using assms(2) by (auto simp: one_or_two_refs_eq [OF assms(1)])

lemma one_or_two_refs_mix:
  assumes "max_element fs = Some d" "run_index_ok e"
  shows "one_or_two_refs e p w 1 inds fs =
     (curve_events e p 1 inds w d @ [Mix_frac_bound (chosen (run_with e p 1 inds w d))], Inr ())"
  using run_with_index [OF assms(2), of p 1 inds w d]
  by (simp add: one_or_two_refs_eq [OF assms(1)] vec_at_ok chosen_def)

lemma two_ref_test_eq:
  assumes "2 \<le> length (ref_freqs e)" "2 \<le> length fs" "run_index_ok e" "run_same_length e"
  shows "two_ref_test e p fs (fst (run_with e p k inds w d)) (snd (run_with e p k inds w d))
           = (two_ref_test_events e p fs (run_with e p k inds w d), Inr ())"
proof -
  let ?res = "run_with e p k inds w d"
  let ?ra = "run_with e p 1 [0] (ref_freqs e ! 0) (fs ! 0)"
  let ?rb = "run_with e p 1 [1] (ref_freqs e ! 1) (fs ! 1)"
  have cmp: "compare_fits (fst ?res) (fst ?ra) (fst ?rb) 0 1 =
           (concat (map (\<lambda>f. Print_fit_header (fst ?res ! f)
                              # fit_diffs (fst ?res) (fst ?ra) (fst ?rb) 0 1 f)
                      [0 ..< length (fst ?res)]), Inr ())"
    by (rule compare_fits_eq; rule eq_imp_le; rule run_with_length [OF assms(4)])
  have sel: "selected (fst ?res) (Some (snd ?res)) = ([], Inr (chosen ?res))"
    "selected (fst ?ra) (Some (snd ?ra)) = ([], Inr (chosen ?ra))"
    "selected (fst ?rb) (Some (snd ?rb)) = ([], Inr (chosen ?rb))"
    using run_with_index [OF assms(3)] by (simp_all add: selected_eq chosen_def)
  have r0: "oneref_run e p fs 0 =
           (Run 1 [0] (ref_freqs e ! 0) (use_naive_algo p) (fs ! 0)
              # map (\<lambda>a. Print_fit a (print_jackknife_fits p)) (fst ?ra), Inr ?ra)"
    using assms(1,2) by (intro oneref_run_eq) auto
  have r1: "oneref_run e p fs 1 =
           (Run 1 [1] (ref_freqs e ! 1) (use_naive_algo p) (fs ! 1)
              # map (\<lambda>a. Print_fit a (print_jackknife_fits p)) (fst ?rb), Inr ?rb)"
    using assms(1,2) by (intro oneref_run_eq) auto
  show ?thesis
    unfolding two_ref_test_def r0 r1
    by (simp add: cmp admixture_test_call_def sel two_ref_test_events_def Let_def
          del: One_nat_def)
qed

subsection \<open>The trace of main up to the branch\<close>

lemma determine_refs_weights:
  "weightname p = Some wn \<Longrightarrow> determine_refs e p = ([], Inr (process_weights e wn, 2, []))"
  by (simp add: determine_refs_def ret_def)

lemma determine_refs_one:
  "weightname p = None \<Longrightarrow> length (ref_freqs e) = 1 \<Longrightarrow> \<not> mincount p < 4 \<Longrightarrow>
   determine_refs e p = ([Number_of_refs 1], Inr (ref_freqs e ! 0, 1, [0]))"
  by (simp add: determine_refs_def ret_def)

lemma determine_refs_two:
  "weightname p = None \<Longrightarrow> length (ref_freqs e) = 2 \<Longrightarrow> freqs_aligned e \<Longrightarrow>
   determine_refs e p = ([Number_of_refs 2], Inr (freq_diff (ref_freqs e) 0 1, 2, [0, 1]))"
  by (simp add: determine_refs_def ret_def subtract_freqs_eq)

lemma determine_refs_multi:
  "weightname p = None \<Longrightarrow> 2 < length (ref_freqs e) \<Longrightarrow>
   determine_refs e p =
     ((if raw_outname p \<noteq> None then [Warn_raw_output] else [])
        @ [Number_of_refs (length (ref_freqs e))], Inr ([], - 1, []))"
  by (auto simp: determine_refs_def Let_def ret_def do_when_emit)

lemma main_eq:
  assumes "mincount p \<le> num_mixed_indivs e" "determine_refs e p = (t, Inr (w, k, inds))"
  shows "main e p =
     (t @ form_events e p k
        @ fst (if length (ref_freqs e) \<le> 2 then one_or_two_refs e p w k inds (starts e p)
               else multi_refs e p (starts e p)),
      snd (if length (ref_freqs e) \<le> 2 then one_or_two_refs e p w k inds (starts e p)
           else multi_refs e p (starts e p)))"
  using assms(1)
  by (simp add: main_def check_mincount_def assms(2) do_when_emit form_events_def starts_def)

lemma filter_concat_map:
  "filter P (concat (map g xs)) = concat (map (\<lambda>x. filter P (g x)) xs)"
  by (induction xs) simp_all

lemma filter_curve_events [simp]:
  "filter is_fit_diff (curve_events e p k inds w d) = []"
  "filter is_admixture_test (curve_events e p k inds w d) = []"
  "filter is_run (curve_events e p k inds w d) = [Run k inds w (use_naive_algo p) d]"
  by (simp_all add: curve_events_def comp_def)

lemma filter_form_events [simp]:
  "filter is_fit_diff (form_events e p k) = []"
  "filter is_admixture_test (form_events e p k) = []"
  "filter is_run (form_events e p k) = []"
  by (simp_all add: form_events_def)

lemma filter_fit_diffs [simp]:
  "filter is_fit_diff (fit_diffs fits fits1 fits2 r1 r2 f) = fit_diffs fits fits1 fits2 r1 r2 f"
  "filter is_admixture_test (fit_diffs fits fits1 fits2 r1 r2 f) = []"
  by (simp_all add: fit_diffs_def)

lemma not_in_curve_events [simp]: "Cannot_test_chroms \<notin> set (curve_events e p k inds w d)"
  by (auto simp: curve_events_def)

lemma not_in_form_events [simp]: "Cannot_test_chroms \<notin> set (form_events e p k)"
  by (auto simp: form_events_def)

lemma main_two_ref:
  assumes "weightname p = None" "length (ref_freqs e) = 2"
    and "mincount p \<le> num_mixed_indivs e" "2 \<le> get_num_chroms_used e"
    and "max_element (starts e p) = Some d" "2 \<le> length (starts e p)"
    and "freqs_aligned e" "run_index_ok e" "run_same_length e"
  shows "main e p =
     (Number_of_refs 2 # form_events e p 2
        @ curve_events e p 2 [0, 1] (freq_diff (ref_freqs e) 0 1) d
        @ two_ref_test_events e p (starts e p)
            (run_with e p 2 [0, 1] (freq_diff (ref_freqs e) 0 1) d),
      Inr ())"
proof -
  have t: "two_ref_test e p (starts e p)
             (fst (run_with e p 2 [0, 1] (freq_diff (ref_freqs e) 0 1) d))
             (snd (run_with e p 2 [0, 1] (freq_diff (ref_freqs e) 0 1) d))
           = (two_ref_test_events e p (starts e p)
                (run_with e p 2 [0, 1] (freq_diff (ref_freqs e) 0 1) d), Inr ())"
    using assms(2,6,8,9) by (intro two_ref_test_eq) simp_all
  show ?thesis
    using assms(2,4)
    by (simp add: main_eq [OF assms(3) determine_refs_two [OF assms(1,2,7)]]
          one_or_two_refs_eq [OF assms(5)] t del: One_nat_def)
qed

lemma two_ref_test_events_split:
  "two_ref_test_events e p fs res =
     (Run 1 [0] (ref_freqs e ! 0) (use_naive_algo p) (fs ! 0)
        # map (\<lambda>a. Print_fit a (print_jackknife_fits p))
            (fst (run_with e p 1 [0] (ref_freqs e ! 0) (fs ! 0)))
      @ Run 1 [1] (ref_freqs e ! 1) (use_naive_algo p) (fs ! 1)
        # map (\<lambda>a. Print_fit a (print_jackknife_fits p))
            (fst (run_with e p 1 [1] (ref_freqs e ! 1) (fs ! 1)))
      @ concat (map (\<lambda>f. Print_fit_header (fst res ! f)
                          # fit_diffs (fst res)
                              (fst (run_with e p 1 [0] (ref_freqs e ! 0) (fs ! 0)))
                              (fst (run_with e p 1 [1] (ref_freqs e ! 1) (fs ! 1))) 0 1 f)
                  [0 ..< length (fst res)]))
     @ [Run_admixture_test (chosen res)
          (chosen (run_with e p 1 [0] (ref_freqs e ! 0) (fs ! 0)))
          (chosen (run_with e p 1 [1] (ref_freqs e ! 1) (fs ! 1))) 0 1 True 1,
        Print_data_header]"
  by (simp add: two_ref_test_events_def Let_def del: One_nat_def)

lemma filter_two_ref_test_events:
  "filter is_admixture_test (two_ref_test_events e p fs res) =
     [Run_admixture_test (chosen res)
        (chosen (run_with e p 1 [0] (ref_freqs e ! 0) (fs ! 0)))
        (chosen (run_with e p 1 [1] (ref_freqs e ! 1) (fs ! 1))) 0 1 True 1]"
  by (simp add: two_ref_test_events_def Let_def comp_def filter_concat_map del: One_nat_def)

subsection \<open>The trace of the branch for three or more references\<close>

lemma fst_pre_of [simp]: "fst (pre_of e p r) = has_oneref_curve e p r"
  by (simp add: pre_of_def has_oneref_curve_def)

lemma pretest_eq:
  assumes "r < length (starts e p)" "run_index_ok e"
  shows "pretest e p (starts e p) r = (pretest_events e p r, Inr (pre_of e p r))"
  using assms(1) run_with_index [OF assms(2), of p 1 "[r]" "ref_freqs e ! r" "starts e p ! r"]
  by (simp add: pretest_def vec_at_nat alder_run_eq print_fits_eq vec_at_ok pre_of_def
        pretest_events_def oneref_result_def chosen_def ret_def)

lemma pretests_eq:
  assumes "n \<le> length (starts e p)" "run_index_ok e"
  shows "map_each [0 ..< n] (pretest e p (starts e p)) =
           (concat (map (pretest_events e p) [0 ..< n]), Inr (map (pre_of e p) [0 ..< n]))"
  by (rule map_each_eq) (use assms in \<open>simp add: pretest_eq\<close>)

lemma tested_pairs_append [simp]: "tested_pairs (xs @ ys) = tested_pairs xs @ tested_pairs ys"
  by (simp add: tested_pairs_def)

lemma tested_pairs_Nil [simp]: "tested_pairs [] = []"
  by (simp add: tested_pairs_def)

lemma tested_pairs_Cons: "tested_pairs (x # xs) = tested x @ tested_pairs xs"
  by (simp add: tested_pairs_def)

lemma tested_pairs_print_fits [simp]: "tested_pairs (map (\<lambda>a. Print_fit a b) fits) = []"
  by (induction fits) (simp_all add: tested_pairs_Cons)

lemma tested_pairs_pair_events [simp]: "tested_pairs (pair_events e p c r1 r2) = [(r1, r2)]"
  by (simp add: pair_events_def Let_def tested_pairs_Cons)

lemma tested_pairs_pretest_events [simp]: "tested_pairs (pretest_events e p r) = []"
  by (simp add: pretest_events_def tested_pairs_Cons)

lemma tested_pairs_form_events [simp]: "tested_pairs (form_events e p k) = []"
  by (simp add: form_events_def tested_pairs_Cons)

lemma tested_pairs_concat_map:
  "tested_pairs (concat (map g xs)) = concat (map (\<lambda>x. tested_pairs (g x)) xs)"
  by (induction xs) simp_all

lemma summary_eq:
  assumes "n \<le> length (starts e p)" "run_index_ok e"
  shows "\<exists>t. summary e (starts e p) (map (pre_of e p) [0 ..< n]) n = (t, Inr ())
              \<and> tested_pairs t = []"
proof -
  let ?t = "\<lambda>r. [Summary r (has_oneref_curve e p r)
                   (if starts e p ! r = PosInf then None
                    else Some (min (zscore e (chosen (oneref_result e p r)) ''decay'')
                                   (zscore e (chosen (oneref_result e p r)) ''amp_exp'')))]"
  have "summary e (starts e p) (map (pre_of e p) [0 ..< n]) n
          = (concat (map ?t [0 ..< n]), Inr ())"
    unfolding summary_def
  proof (rule for_each_eq)
    fix r assume "r \<in> set [0 ..< n]"
    then have r: "r < n" by simp
    with assms(1) have "r < length (starts e p)" by simp
    then show "bind (vec_at (starts e p) (int r)) (\<lambda>start.
       if start = PosInf then emit (Summary r (fst (map (pre_of e p) [0 ..< n] ! r)) None)
       else bind (selected (fst (snd (map (pre_of e p) [0 ..< n] ! r)))
                    (snd (snd (map (pre_of e p) [0 ..< n] ! r)))) (\<lambda>a.
            emit (Summary r (fst (map (pre_of e p) [0 ..< n] ! r))
                    (Some (min (zscore e a ''decay'') (zscore e a ''amp_exp''))))))
       = (?t r, Inr ())"
      using r run_with_index [OF assms(2), of p 1 "[r]" "ref_freqs e ! r" "starts e p ! r"]
      by (simp add: vec_at_nat pre_of_def selected_eq oneref_result_def chosen_def emit_def
            has_oneref_curve_def)
  qed
  moreover have "tested_pairs (concat (map ?t [0 ..< n])) = []"
    by (induction n) (simp_all add: tested_pairs_def)
  ultimately show ?thesis by blast
qed

lemma pair_test_eq:
  assumes "r1 < n" "r2 < n" "n = length (ref_freqs e)" "n \<le> length (starts e p)"
    and "freqs_aligned e" "run_index_ok e"
    and "has_oneref_curve e p r1" "has_oneref_curve e p r2"
  shows "pair_test e p (starts e p) (map (pre_of e p) [0 ..< n]) c r1 r2
           = (pair_events e p c r1 r2, Inr ())"
proof -
  have s: "starts e p ! r1 \<noteq> PosInf" "starts e p ! r2 \<noteq> PosInf"
    using assms(7,8) by (simp_all add: has_oneref_curve_def)
  have sel: "\<And>k inds w d.
      selected (fst (run_with e p k inds w d)) (Some (snd (run_with e p k inds w d)))
        = ([], Inr (chosen (run_with e p k inds w d)))"
    using run_with_index [OF assms(6)] by (simp add: selected_eq chosen_def)
  show ?thesis
    using assms(1-4) s
    by (simp add: pair_test_def vec_at_nat subtract_freqs_eq [OF assms(5)] alder_run_eq
          print_fits_eq admixture_test_call_def pre_of_def sel pair_events_def Let_def
          oneref_result_def)
qed

lemma pair_loop_eq:
  assumes "n = length (ref_freqs e)" "n \<le> length (starts e p)"
    and "freqs_aligned e" "run_index_ok e"
  shows "\<exists>t. pair_loop e p (starts e p) (map (pre_of e p) [0 ..< n]) c n = (t, Inr ())
              \<and> tested_pairs t = eligible_pairs e p"
proof -
  let ?pre = "map (pre_of e p) [0 ..< n]"
  let ?inner = "\<lambda>r1 r2. if has_oneref_curve e p r2 then pair_events e p c r1 r2 else []"
  let ?outer = "\<lambda>r1. if has_oneref_curve e p r1
                       then concat (map (?inner r1) [r1 + 1 ..< n]) else []"
  have inner: "for_each [r1 + 1 ..< n] (\<lambda>r2.
         if \<not> fst (?pre ! r2) then ret ()
         else pair_test e p (starts e p) ?pre c r1 r2)
       = (concat (map (?inner r1) [r1 + 1 ..< n]), Inr ())"
    if "r1 < n" "has_oneref_curve e p r1" for r1
  proof (rule for_each_eq)
    fix r2 assume "r2 \<in> set [r1 + 1 ..< n]"
    then have "r2 < n" by simp
    then show "(if \<not> fst (?pre ! r2) then ret ()
                else pair_test e p (starts e p) ?pre c r1 r2) = (?inner r1 r2, Inr ())"
      using that assms by (simp add: pair_test_eq ret_def)
  qed
  have "pair_loop e p (starts e p) ?pre c n = (concat (map ?outer [0 ..< n]), Inr ())"
    unfolding pair_loop_def
  proof (rule for_each_eq)
    fix r1 assume "r1 \<in> set [0 ..< n]"
    then have "r1 < n" by simp
    then show "(if \<not> fst (?pre ! r1) then ret ()
       else for_each [r1 + 1 ..< n] (\<lambda>r2.
         if \<not> fst (?pre ! r2) then ret ()
         else pair_test e p (starts e p) ?pre c r1 r2)) = (?outer r1, Inr ())"
      using inner [of r1] by (simp add: ret_def)
  qed
  moreover have "tested_pairs (concat (map ?outer [0 ..< n])) = eligible_pairs e p"
    unfolding eligible_pairs_def tested_pairs_concat_map assms(1) [symmetric]
    by (intro arg_cong [where f = concat] map_cong refl)
       (simp add: tested_pairs_concat_map if_distrib [where f = tested_pairs] cong: if_cong)
  ultimately show ?thesis by blast
qed

lemma distinct_concat_map:
  assumes "distinct xs" and "\<And>x. x \<in> set xs \<Longrightarrow> distinct (f x)"
    and "\<And>x y. x \<in> set xs \<Longrightarrow> y \<in> set xs \<Longrightarrow> x \<noteq> y \<Longrightarrow> set (f x) \<inter> set (f y) = {}"
  shows "distinct (concat (map f xs))"
  using assms
proof (induction xs)
  case Nil
  then show ?case by simp
next
  case (Cons a xs)
  have "distinct (concat (map f xs))" using Cons by simp
  moreover have "distinct (f a)" using Cons.prems(2) by simp
  moreover have "set (f a) \<inter> set (concat (map f xs)) = {}"
  proof -
    have "set (f a) \<inter> set (f y) = {}" if "y \<in> set xs" for y
      using Cons.prems(1) Cons.prems(3) [of a y] that by auto
    then show ?thesis by auto
  qed
  ultimately show ?case by simp
qed

lemma set_eligible_pairs:
  "(r1, r2) \<in> set (eligible_pairs e p) \<longleftrightarrow>
     r1 < r2 \<and> r2 < length (ref_freqs e) \<and> has_oneref_curve e p r1 \<and> has_oneref_curve e p r2"
  by (auto simp: eligible_pairs_def split: if_splits)

lemma distinct_eligible_pairs: "distinct (eligible_pairs e p)"
  unfolding eligible_pairs_def
proof (rule distinct_concat_map)
  show "distinct [0 ..< length (ref_freqs e)]" by simp
next
  fix r1
  show "distinct (concat (map (\<lambda>r2.
        if has_oneref_curve e p r1 \<and> has_oneref_curve e p r2 then [(r1, r2)] else [])
          [r1 + 1 ..< length (ref_freqs e)]))"
    by (rule distinct_concat_map) (auto split: if_splits)
next
  fix x y :: nat
  assume "x \<noteq> y"
  then show "set (concat (map (\<lambda>r2.
        if has_oneref_curve e p x \<and> has_oneref_curve e p r2 then [(x, r2)] else [])
          [x + 1 ..< length (ref_freqs e)]))
      \<inter> set (concat (map (\<lambda>r2.
        if has_oneref_curve e p y \<and> has_oneref_curve e p r2 then [(y, r2)] else [])
          [y + 1 ..< length (ref_freqs e)])) = {}"
    by (auto split: if_splits)
qed

lemma determine_refs_many:
  assumes "2 < length (ref_freqs e)"
  shows "\<exists>t w k inds. determine_refs e p = (t, Inr (w, k, inds)) \<and> tested_pairs t = []
            \<and> filter is_run t = []"
proof (cases "weightname p")
  case None
  show ?thesis
    by (simp add: determine_refs_multi [OF None assms] tested_pairs_Cons)
next
  case (Some wn)
  show ?thesis
    by (simp add: determine_refs_weights [OF Some])
qed

lemma multi_refs_eq:
  assumes "2 \<le> get_num_chroms_used e" "length (ref_freqs e) \<le> length (starts e p)"
    and "freqs_aligned e" "run_index_ok e"
  shows "\<exists>t. multi_refs e p (starts e p) = (t, Inr ()) \<and> tested_pairs t = eligible_pairs e p"
proof -
  let ?n = "length (ref_freqs e)"
  obtain ts where ts: "summary e (starts e p) (map (pre_of e p) [0 ..< ?n]) ?n = (ts, Inr ())"
      "tested_pairs ts = []"
    using summary_eq [OF assms(2,4)] by blast
  obtain tl where tl: "pair_loop e p (starts e p) (map (pre_of e p) [0 ..< ?n])
        (compute_mult_hyp_corr e (replicate ?n True)) ?n = (tl, Inr ())"
      "tested_pairs tl = eligible_pairs e p"
    using pair_loop_eq [OF refl assms(2,3,4)] by blast
  have "multi_refs e p (starts e p) =
     (concat (map (pretest_events e p) [0 ..< ?n]) @ ts
        @ Compute_mult_hyp_corr (replicate ?n True) # Print_data_header # tl, Inr ())"
    using assms(1)
    by (simp add: multi_refs_def Let_def pretests_eq [OF assms(2,4)] ts(1) tl(1))
  moreover have "tested_pairs (concat (map (pretest_events e p) [0 ..< ?n]) @ ts
        @ Compute_mult_hyp_corr (replicate ?n True) # Print_data_header # tl)
      = eligible_pairs e p"
    by (simp add: tested_pairs_concat_map ts(2) tl(2) tested_pairs_Cons)
  ultimately show ?thesis by blast
qed


subsection \<open>The concrete runs\<close>

lemmas model_defs =
  main_def check_mincount_def determine_refs_def one_or_two_refs_def two_ref_test_def
  oneref_run_def compare_fits_def multi_refs_def pretest_def summary_def pair_loop_def
  pair_test_def admixture_test_call_def selected_def alder_run_def print_fits_def
  subtract_freqs_def vec_at_def do_when_def dbl_max_def ret_def emit_def fatalx_def
  demo_env_def demo_params_def demo_run_def used_count_def weights_params_def

lemma main_two_refs:
  "main two_refs demo_params =
     ([Number_of_refs 2, Form_2_ref,
       Run 2 [0, 1] [1 / 4, 0] False (Fin (1 / 100)), Output_curve_data,
       Plot_ascii_curve (Fin (1 / 100)), Print_fit ([0, 1], 0) False,
       Print_fit ([0, 1], 1) False,
       Run 1 [0] [1 / 2, 1 / 4] False (Fin (1 / 200)), Print_fit ([0], 0) False,
       Print_fit ([0], 1) False, Run 1 [1] [1 / 4, 1 / 4] False (Fin (1 / 100)),
       Print_fit ([1], 0) False, Print_fit ([1], 1) False,
       Print_fit_header ([0, 1], 0),
       Print_fit_diff ([0], 0) ([0, 1], 0) ''decay'' (One_ref 0) Two_ref,
       Print_fit_diff ([1], 0) ([0, 1], 0) ''decay'' (One_ref 1) Two_ref,
       Print_fit_diff ([1], 0) ([0], 0) ''decay'' (One_ref 1) (One_ref 0),
       Print_fit_header ([0, 1], 1),
       Print_fit_diff ([0], 1) ([0, 1], 1) ''decay'' (One_ref 0) Two_ref,
       Print_fit_diff ([1], 1) ([0, 1], 1) ''decay'' (One_ref 1) Two_ref,
       Print_fit_diff ([1], 1) ([0], 1) ''decay'' (One_ref 1) (One_ref 0),
       Run_admixture_test ([0, 1], 1) ([0], 1) ([1], 1) 0 1 True 1,
       Print_data_header],
      Inr ())"
  by (simp add: two_refs_def model_defs upt_rec)

lemma main_three_refs:
  "main three_refs demo_params =
     ([Number_of_refs 3, Form_multi,
       Run 1 [0] [1 / 2, 1 / 4] False (Fin (1 / 200)), Print_fit ([0], 0) False,
       Print_fit ([0], 1) False, Pretest 0 True,
       Run 1 [1] [1 / 4, 1 / 4] False (Fin (1 / 100)), Print_fit ([1], 0) False,
       Print_fit ([1], 1) False, Pretest 1 True, Summary 0 True (Some 3),
       Summary 1 True (Some 3), Summary 2 False None,
       Compute_mult_hyp_corr [True, True, True], Print_data_header,
       Run 2 [0, 1] [1 / 4, 0] False (Fin (1 / 100)),
       Plot_ascii_curve (Fin (1 / 100)), Print_fit ([0, 1], 0) False,
       Print_fit ([0, 1], 1) False,
       Run_admixture_test ([0, 1], 1) ([0], 1) ([1], 1) 0 1 False 3],
      Inr ())"
  by (simp add: three_refs_def model_defs upt_rec)

lemma main_three_refs_one_chrom:
  "main three_refs_one_chrom demo_params = ([Number_of_refs 3, Form_multi], Inl Need_chroms)"
  by (simp add: three_refs_one_chrom_def model_defs)

lemma main_no_refs_one_chrom:
  "main (no_refs 1) weights_params =
     ([Form_2_ref, Run 2 [] [1, - 1] False (Fin (1 / 200)), Output_curve_data,
       Plot_ascii_curve (Fin (1 / 200)), Print_fit ([], 0) False,
       Print_fit ([], 1) False, Cannot_test_chroms],
      Inr ())"
  by (simp add: no_refs_def model_defs)

lemma demo_wellformed:
  "run_index_ok (demo_env rf chroms fs bad)"
  "run_same_length (demo_env rf chroms fs bad)"
  by (simp_all add: run_index_ok_def run_same_length_def demo_env_def demo_run_def)

section \<open>The claims\<close>

subsection \<open>C1: the multiple-hypothesis correction\<close>

text \<open>
  Claim C1 says that with three or more references the correction factor applied to each
  pairwise test is computed from the references that remain eligible after the pre-test only.
  The driver does not do that: it hands \<^verbatim>\<open>compute_mult_hyp_corr\<close> a freshly built
  all-true vector of length \<^verbatim>\<open>num_ref_freqs\<close> (line 335), not \<^verbatim>\<open>has_oneref_curve\<close>.
  With three references of which the third has an infinite start distance, the vector handed
  over still marks the third reference, and with a correction that counts the marked
  references the factor passed to the one pairwise test is 3, where the eligible references
  alone give 2.
\<close>

theorem mult_hyp_corr_counts_ineligible_ref:
  "\<not> has_oneref_curve three_refs demo_params 2
   \<and> Compute_mult_hyp_corr [True, True, True] \<in> set (fst (main three_refs demo_params))
   \<and> Run_admixture_test ([0, 1], 1) ([0], 1) ([1], 1) 0 1 False 3
       \<in> set (fst (main three_refs demo_params))
   \<and> compute_mult_hyp_corr three_refs
       (map (has_oneref_curve three_refs demo_params) [0, 1, 2]) = 2"
  by (simp add: main_three_refs)
     (simp add: has_oneref_curve_def starts_def oneref_result_def run_with_def chosen_def
        three_refs_def demo_env_def demo_run_def demo_params_def used_count_def)

text \<open>
  Claim C1 as amended: with three or more references, the vector handed to
  \<^verbatim>\<open>compute_mult_hyp_corr\<close> marks every reference population, whatever the pre-tests
  said, and the factor passed to every pairwise admixture test is the value computed from
  that vector; so the factor depends on the number of reference populations, not on which
  of them remain eligible.
\<close>

theorem mult_hyp_corr_over_all_refs:
  assumes "2 < length (ref_freqs e)"
  shows "(Compute_mult_hyp_corr used \<in> set (fst (main e p))
            \<longrightarrow> used = replicate (length (ref_freqs e)) True)
       \<and> (Run_admixture_test a a1 a2 r1 r2 flag c \<in> set (fst (main e p))
            \<longrightarrow> c = compute_mult_hyp_corr e (replicate (length (ref_freqs e)) True))"
proof (intro conjI impI)
  assume "Compute_mult_hyp_corr used \<in> set (fst (main e p))"
  from sat_event [OF sat_main_test this]
  show "used = replicate (length (ref_freqs e)) True"
    by (simp add: test_args_ok_def)
next
  assume "Run_admixture_test a a1 a2 r1 r2 flag c \<in> set (fst (main e p))"
  from sat_event [OF sat_main_test this] assms
  show "c = compute_mult_hyp_corr e (replicate (length (ref_freqs e)) True)"
    by (simp add: test_args_ok_def)
qed

theorem mult_hyp_corr_over_all_refs_witness:
  "2 < length (ref_freqs three_refs)
   \<and> Run_admixture_test ([0, 1], 1) ([0], 1) ([1], 1) 0 1 False 3
       \<in> set (fst (main three_refs demo_params))
   \<and> (3 :: real) = compute_mult_hyp_corr three_refs (replicate (length (ref_freqs three_refs)) True)"
proof -
  have n: "2 < length (ref_freqs three_refs)"
    by (simp add: three_refs_def demo_env_def)
  have ev: "Run_admixture_test ([0, 1], 1) ([0], 1) ([1], 1) 0 1 False 3
       \<in> set (fst (main three_refs demo_params))"
    by (simp add: main_three_refs)
  from mult_hyp_corr_over_all_refs [OF n, of _ demo_params "([0, 1], 1)" "([0], 1)" "([1], 1)"
      0 1 False 3] ev n
  show ?thesis by blast
qed

subsection \<open>C2: fewer than two chromosomes\<close>

text \<open>
  Claim C2 says that fewer than two chromosomes is never fatal, in every reference
  configuration. With three references and one chromosome the driver aborts through
  \<^verbatim>\<open>fatalx\<close> (line 291) before any pre-test or curve.
\<close>

theorem too_few_chromosomes_fatal_with_three_refs:
  "get_num_chroms_used three_refs_one_chrom < 2
   \<and> length (ref_freqs three_refs_one_chrom) = 3
   \<and> main three_refs_one_chrom demo_params = ([Number_of_refs 3, Form_multi], Inl Need_chroms)"
  by (simp add: main_three_refs_one_chrom) (simp add: three_refs_one_chrom_def demo_env_def)

text \<open>
  Claim C2 as amended. Let fewer than two chromosomes be usable and the configuration be
  accepted. With at most two reference populations the run completes and computes the curve
  (exactly one call of \<^verbatim>\<open>alder.run\<close>), and no admixture test is run; on the two-reference
  computation path (two references, or external weights) it reports that it cannot test for
  admixture because two chromosomes are needed, while in the single-reference configuration
  there is no such report. With three or more reference populations the run aborts with the
  fatal error "cannot test for admixture: need >= 2 chroms to jackknife" and computes no
  curve.
\<close>

theorem too_few_chromosomes:
  assumes "get_num_chroms_used e < 2" and "mincount p \<le> num_mixed_indivs e"
  shows "(length (ref_freqs e) \<le> 2 \<longrightarrow>
            \<not> (weightname p = None \<and> length (ref_freqs e) = 0) \<longrightarrow>
            \<not> (weightname p = None \<and> length (ref_freqs e) = 1 \<and> mincount p < 4) \<longrightarrow>
            max_element (starts e p) = Some d \<longrightarrow> freqs_aligned e \<longrightarrow> run_index_ok e \<longrightarrow>
              snd (main e p) = Inr ()
              \<and> (\<exists>k inds w. filter is_run (fst (main e p)) = [Run k inds w (use_naive_algo p) d])
              \<and> filter is_admixture_test (fst (main e p)) = []
              \<and> (Cannot_test_chroms \<in> set (fst (main e p)) \<longleftrightarrow>
                   \<not> (weightname p = None \<and> length (ref_freqs e) = 1)))
       \<and> (2 < length (ref_freqs e) \<longrightarrow>
            snd (main e p) = Inl Need_chroms \<and> filter is_run (fst (main e p)) = [])"
proof (intro conjI impI)
  assume big: "2 < length (ref_freqs e)"
  obtain t0 w k inds where d: "determine_refs e p = (t0, Inr (w, k, inds))"
      "filter is_run t0 = []"
    using determine_refs_many [OF big] by blast
  have m: "main e p = (t0 @ form_events e p k, Inl Need_chroms)"
    using big assms(1)
    by (simp add: main_eq [OF assms(2) d(1)] multi_refs_def fatalx_def)
  show "snd (main e p) = Inl Need_chroms" by (simp add: m)
  show "filter is_run (fst (main e p)) = []" by (simp add: m d(2))
next
  assume small: "length (ref_freqs e) \<le> 2"
    and n0: "\<not> (weightname p = None \<and> length (ref_freqs e) = 0)"
    and n1: "\<not> (weightname p = None \<and> length (ref_freqs e) = 1 \<and> mincount p < 4)"
    and mx: "max_element (starts e p) = Some d"
    and al: "freqs_aligned e" and ix: "run_index_ok e"
  consider (ext) wn where "weightname p = Some wn"
    | (one) "weightname p = None" "length (ref_freqs e) = 1" "\<not> mincount p < 4"
    | (two) "weightname p = None" "length (ref_freqs e) = 2"
    using small n0 n1 by (cases "weightname p") (auto simp: le_Suc_eq numeral_2_eq_2)
  then have "snd (main e p) = Inr ()
      \<and> (\<exists>k inds w. filter is_run (fst (main e p)) = [Run k inds w (use_naive_algo p) d])
      \<and> filter is_admixture_test (fst (main e p)) = []
      \<and> (Cannot_test_chroms \<in> set (fst (main e p)) \<longleftrightarrow>
           \<not> (weightname p = None \<and> length (ref_freqs e) = 1))"
  proof cases
    case ext
    have "main e p = (form_events e p 2 @ curve_events e p 2 [] (process_weights e wn) d
             @ [Cannot_test_chroms], Inr ())"
      using small assms(1)
      by (simp add: main_eq [OF assms(2) determine_refs_weights [OF ext]]
            one_or_two_refs_cannot [OF mx])
    then show ?thesis using ext by simp
  next
    case one
    have "main e p = (Number_of_refs 1 # form_events e p 1
             @ curve_events e p 1 [0] (ref_freqs e ! 0) d
             @ [Mix_frac_bound (chosen (run_with e p 1 [0] (ref_freqs e ! 0) d))], Inr ())"
      using small
      by (simp add: main_eq [OF assms(2) determine_refs_one [OF one]]
            one_or_two_refs_mix [OF mx ix])
    then show ?thesis using one by simp
  next
    case two
    have "main e p = (Number_of_refs 2 # form_events e p 2
             @ curve_events e p 2 [0, 1] (freq_diff (ref_freqs e) 0 1) d
             @ [Cannot_test_chroms], Inr ())"
      using small assms(1)
      by (simp add: main_eq [OF assms(2) determine_refs_two [OF two al]]
            one_or_two_refs_cannot [OF mx])
    then show ?thesis using two by simp
  qed
  then show "snd (main e p) = Inr ()"
    and "\<exists>k inds w. filter is_run (fst (main e p)) = [Run k inds w (use_naive_algo p) d]"
    and "filter is_admixture_test (fst (main e p)) = []"
    and "Cannot_test_chroms \<in> set (fst (main e p)) \<longleftrightarrow>
           \<not> (weightname p = None \<and> length (ref_freqs e) = 1)"
    by blast+
qed

theorem too_few_chromosomes_witness:
  "snd (main two_refs_one_chrom demo_params) = Inr ()
   \<and> filter is_admixture_test (fst (main two_refs_one_chrom demo_params)) = []
   \<and> Cannot_test_chroms \<in> set (fst (main two_refs_one_chrom demo_params))
   \<and> snd (main three_refs_one_chrom demo_params) = Inl Need_chroms"
proof -
  have a: "get_num_chroms_used two_refs_one_chrom < 2"
    "mincount demo_params \<le> num_mixed_indivs two_refs_one_chrom"
    "length (ref_freqs two_refs_one_chrom) = 2" "weightname demo_params = None"
    "max_element (starts two_refs_one_chrom demo_params) = Some (Fin (1 / 100))"
    "freqs_aligned two_refs_one_chrom" "run_index_ok two_refs_one_chrom"
    by (simp_all add: two_refs_one_chrom_def demo_wellformed)
       (simp_all add: demo_env_def demo_params_def starts_def freqs_aligned_def)
  have b: "get_num_chroms_used three_refs_one_chrom < 2"
    "mincount demo_params \<le> num_mixed_indivs three_refs_one_chrom"
    "2 < length (ref_freqs three_refs_one_chrom)"
    by (simp_all add: three_refs_one_chrom_def demo_env_def demo_params_def)
  from too_few_chromosomes [OF a(1,2), of "Fin (1 / 100)"] a(3-7)
    too_few_chromosomes [OF b(1,2)] b(3)
  show ?thesis by simp
qed

subsection \<open>C3: fatal errors\<close>




subsection \<open>C4: no correction with exactly two references\<close>

text \<open>
  Claim C4: whenever the driver calls \<^verbatim>\<open>run_admixture_test\<close> in the branch for at most two
  references, it passes the flag \<^verbatim>\<open>true\<close> and the correction factor 1; in the branch for three
  or more references it passes the flag \<^verbatim>\<open>false\<close> and the factor computed by
  \<^verbatim>\<open>compute_mult_hyp_corr\<close>. And with exactly two references with genotype data, no external
  weights and at least two chromosomes, the test is indeed run, exactly once, on the
  two-reference fit and the two single-reference fits.
\<close>

theorem two_ref_test_uncorrected:
  "(\<forall>a a1 a2 r1 r2 flag c.
      Run_admixture_test a a1 a2 r1 r2 flag c \<in> set (fst (main e p)) \<longrightarrow>
        (if length (ref_freqs e) \<le> 2 then flag \<and> c = 1
         else \<not> flag
              \<and> c = compute_mult_hyp_corr e (replicate (length (ref_freqs e)) True)))
   \<and> (weightname p = None \<longrightarrow> length (ref_freqs e) = 2 \<longrightarrow>
      mincount p \<le> num_mixed_indivs e \<longrightarrow> 2 \<le> get_num_chroms_used e \<longrightarrow>
      max_element (starts e p) = Some d \<longrightarrow> 2 \<le> length (starts e p) \<longrightarrow>
      freqs_aligned e \<longrightarrow> run_index_ok e \<longrightarrow> run_same_length e \<longrightarrow>
        filter is_admixture_test (fst (main e p)) =
          [Run_admixture_test
             (chosen (run_with e p 2 [0, 1] (freq_diff (ref_freqs e) 0 1) d))
             (chosen (oneref_result e p 0)) (chosen (oneref_result e p 1)) 0 1 True 1])"
proof (intro conjI allI impI)
  fix a a1 a2 :: 'a and r1 r2 flag c
  assume "Run_admixture_test a a1 a2 r1 r2 flag c \<in> set (fst (main e p))"
  from sat_event [OF sat_main_test this]
  show "if length (ref_freqs e) \<le> 2 then flag \<and> c = 1
        else \<not> flag \<and> c = compute_mult_hyp_corr e (replicate (length (ref_freqs e)) True)"
    by (simp add: test_args_ok_def)
next
  assume h: "weightname p = None" "length (ref_freqs e) = 2"
    "mincount p \<le> num_mixed_indivs e" "2 \<le> get_num_chroms_used e"
    "max_element (starts e p) = Some d" "2 \<le> length (starts e p)"
    "freqs_aligned e" "run_index_ok e" "run_same_length e"
  show "filter is_admixture_test (fst (main e p)) =
          [Run_admixture_test
             (chosen (run_with e p 2 [0, 1] (freq_diff (ref_freqs e) 0 1) d))
             (chosen (oneref_result e p 0)) (chosen (oneref_result e p 1)) 0 1 True 1]"
    by (simp add: main_two_ref [OF h] filter_two_ref_test_events oneref_result_def
          del: One_nat_def)
qed

theorem two_ref_test_uncorrected_witness:
  "filter is_admixture_test (fst (main two_refs demo_params)) =
     [Run_admixture_test ([0, 1], 1) ([0], 1) ([1], 1) 0 1 True 1]"
proof -
  have a: "weightname demo_params = None" "length (ref_freqs two_refs) = 2"
    "mincount demo_params \<le> num_mixed_indivs two_refs" "2 \<le> get_num_chroms_used two_refs"
    "max_element (starts two_refs demo_params) = Some (Fin (1 / 100))"
    "2 \<le> length (starts two_refs demo_params)"
    "freqs_aligned two_refs" "run_index_ok two_refs" "run_same_length two_refs"
    by (simp_all add: two_refs_def demo_wellformed)
       (simp_all add: demo_env_def demo_params_def starts_def freqs_aligned_def)
  have c: "chosen (run_with two_refs demo_params 2 [0, 1]
              (freq_diff (ref_freqs two_refs) 0 1) (Fin (1 / 100))) = ([0, 1], 1)"
    "chosen (oneref_result two_refs demo_params 0) = ([0], 1)"
    "chosen (oneref_result two_refs demo_params 1) = ([1], 1)"
    by (simp_all add: chosen_def oneref_result_def run_with_def two_refs_def demo_env_def
          demo_run_def)
  from two_ref_test_uncorrected [of two_refs demo_params "Fin (1 / 100)"] a
  show ?thesis by (simp add: c del: One_nat_def)
qed

subsection \<open>C5: one test for every pair of eligible references\<close>

text \<open>
  Claim C5: with three or more references (and a run that gets as far as the tests: an
  accepted mincount, at least two chromosomes, and collaborators that keep the driver within
  its vectors), the run completes and the pairs of references handed to
  \<^verbatim>\<open>run_admixture_test\<close> are exactly the pairs \<open>r1 < r2\<close> of references that both have a
  single-reference curve, each of them once. A reference without one - because its start
  distance is infinite or because its pre-test failed - is in no tested pair.
\<close>

theorem pairwise_tests_of_eligible_refs:
  assumes "2 < length (ref_freqs e)" and "mincount p \<le> num_mixed_indivs e"
    and "2 \<le> get_num_chroms_used e" and "length (ref_freqs e) \<le> length (starts e p)"
    and "freqs_aligned e" and "run_index_ok e"
  shows "snd (main e p) = Inr ()
       \<and> tested_pairs (fst (main e p)) = eligible_pairs e p
       \<and> distinct (tested_pairs (fst (main e p)))
       \<and> (\<forall>r1 r2. (r1, r2) \<in> set (tested_pairs (fst (main e p))) \<longleftrightarrow>
             r1 < r2 \<and> r2 < length (ref_freqs e)
             \<and> has_oneref_curve e p r1 \<and> has_oneref_curve e p r2)
       \<and> (\<forall>r r'. \<not> has_oneref_curve e p r \<longrightarrow>
             (r, r') \<notin> set (tested_pairs (fst (main e p)))
             \<and> (r', r) \<notin> set (tested_pairs (fst (main e p))))"
proof -
  obtain t0 w k inds where d: "determine_refs e p = (t0, Inr (w, k, inds))"
      "tested_pairs t0 = []"
    using determine_refs_many [OF assms(1)] by blast
  obtain t where t: "multi_refs e p (starts e p) = (t, Inr ())"
      "tested_pairs t = eligible_pairs e p"
    using multi_refs_eq [OF assms(3-6)] by blast
  have m: "main e p = (t0 @ form_events e p k @ t, Inr ())"
    using assms(1) by (simp add: main_eq [OF assms(2) d(1)] t(1))
  have tp: "tested_pairs (fst (main e p)) = eligible_pairs e p"
    by (simp add: m d(2) t(2))
  show ?thesis
    unfolding tp using distinct_eligible_pairs [of e p]
    by (simp add: m set_eligible_pairs)
qed

theorem pairwise_tests_of_eligible_refs_witness:
  "snd (main four_refs demo_params) = Inr ()
   \<and> tested_pairs (fst (main four_refs demo_params)) = [(0, 3)]"
proof -
  have a: "2 < length (ref_freqs four_refs)"
    "mincount demo_params \<le> num_mixed_indivs four_refs" "2 \<le> get_num_chroms_used four_refs"
    "length (ref_freqs four_refs) \<le> length (starts four_refs demo_params)"
    "freqs_aligned four_refs" "run_index_ok four_refs"
    by (simp_all add: four_refs_def demo_wellformed)
       (simp_all add: demo_env_def demo_params_def starts_def freqs_aligned_def)
  have b: "eligible_pairs four_refs demo_params = [(0, 3)]"
    by (simp add: eligible_pairs_def has_oneref_curve_def starts_def oneref_result_def
          run_with_def chosen_def four_refs_def demo_env_def demo_run_def upt_rec)
  from pairwise_tests_of_eligible_refs [OF a] show ?thesis by (simp add: b)
qed

subsection \<open>C7: the three decay differences\<close>

text \<open>
  Claim C7: in the two-reference case in which the admixture test is run (two references
  with genotype data, no external weights, at least two chromosomes), the driver prints for
  every tried fit-start offset \<open>f\<close> the three differences in decay: first reference against
  the two-reference fit, second reference against the two-reference fit, and second reference
  against first. These are all the differences it prints, and all of them are printed before
  \<^verbatim>\<open>run_admixture_test\<close> is called, hence whatever that test finds.
\<close>

theorem two_ref_decay_differences_reported:
  assumes "weightname p = None" and "length (ref_freqs e) = 2"
    and "mincount p \<le> num_mixed_indivs e" and "2 \<le> get_num_chroms_used e"
    and "max_element (starts e p) = Some d" and "2 \<le> length (starts e p)"
    and "freqs_aligned e" and "run_index_ok e" and "run_same_length e"
    and "fits = fst (run_with e p 2 [0, 1] (freq_diff (ref_freqs e) 0 1) d)"
  shows "filter is_fit_diff (fst (main e p)) =
           concat (map (fit_diffs fits (fst (oneref_result e p 0)) (fst (oneref_result e p 1)) 0 1)
                     [0 ..< length fits])
       \<and> filter is_fit_diff (takeWhile (\<lambda>ev. \<not> is_admixture_test ev) (fst (main e p))) =
           filter is_fit_diff (fst (main e p))"
proof -
  let ?res = "run_with e p 2 [0, 1] (freq_diff (ref_freqs e) 0 1) d"
  let ?ra = "run_with e p 1 [0] (ref_freqs e ! 0) (starts e p ! 0)"
  let ?rb = "run_with e p 1 [1] (ref_freqs e ! 1) (starts e p ! 1)"
  let ?before = "Number_of_refs 2 # form_events e p 2
        @ curve_events e p 2 [0, 1] (freq_diff (ref_freqs e) 0 1) d
        @ Run 1 [0] (ref_freqs e ! 0) (use_naive_algo p) (starts e p ! 0)
           # map (\<lambda>a. Print_fit a (print_jackknife_fits p)) (fst ?ra)
         @ Run 1 [1] (ref_freqs e ! 1) (use_naive_algo p) (starts e p ! 1)
           # map (\<lambda>a. Print_fit a (print_jackknife_fits p)) (fst ?rb)
         @ concat (map (\<lambda>f. Print_fit_header (fst ?res ! f)
                              # fit_diffs (fst ?res) (fst ?ra) (fst ?rb) 0 1 f)
                     [0 ..< length (fst ?res)])"
  let ?test = "Run_admixture_test (chosen ?res) (chosen ?ra) (chosen ?rb) 0 1 True 1"
  define before where "before = ?before"
  have tr: "fst (main e p) = before @ [?test, Print_data_header]"
    unfolding before_def
    by (simp add: main_two_ref [OF assms(1-9)] two_ref_test_events_split del: One_nat_def)
  have no_test: "filter is_admixture_test before = []"
    unfolding before_def by (simp add: comp_def filter_concat_map del: One_nat_def)
  have diffs: "filter is_fit_diff before =
      concat (map (fit_diffs (fst ?res) (fst ?ra) (fst ?rb) 0 1) [0 ..< length (fst ?res)])"
    unfolding before_def by (simp add: comp_def filter_concat_map del: One_nat_def)
  have all: "filter is_fit_diff (fst (main e p)) = filter is_fit_diff before"
    unfolding tr by simp
  have nt: "\<not> is_admixture_test ev" if "ev \<in> set before" for ev
    using no_test that unfolding filter_empty_conv by blast
  have "takeWhile (\<lambda>ev. \<not> is_admixture_test ev) (before @ [?test, Print_data_header])
          = before @ takeWhile (\<lambda>ev. \<not> is_admixture_test ev) [?test, Print_data_header]"
    by (rule takeWhile_append2) (rule nt)
  then have "takeWhile (\<lambda>ev. \<not> is_admixture_test ev) (fst (main e p)) = before"
    unfolding tr by simp
  with all diffs show ?thesis
    by (simp add: assms(10) oneref_result_def del: One_nat_def)
qed

theorem two_ref_decay_differences_reported_witness:
  "filter is_fit_diff (fst (main two_refs demo_params)) =
     [Print_fit_diff ([0], 0) ([0, 1], 0) ''decay'' (One_ref 0) Two_ref,
      Print_fit_diff ([1], 0) ([0, 1], 0) ''decay'' (One_ref 1) Two_ref,
      Print_fit_diff ([1], 0) ([0], 0) ''decay'' (One_ref 1) (One_ref 0),
      Print_fit_diff ([0], 1) ([0, 1], 1) ''decay'' (One_ref 0) Two_ref,
      Print_fit_diff ([1], 1) ([0, 1], 1) ''decay'' (One_ref 1) Two_ref,
      Print_fit_diff ([1], 1) ([0], 1) ''decay'' (One_ref 1) (One_ref 0)]"
proof -
  have a: "weightname demo_params = None" "length (ref_freqs two_refs) = 2"
    "mincount demo_params \<le> num_mixed_indivs two_refs" "2 \<le> get_num_chroms_used two_refs"
    "max_element (starts two_refs demo_params) = Some (Fin (1 / 100))"
    "2 \<le> length (starts two_refs demo_params)"
    "freqs_aligned two_refs" "run_index_ok two_refs" "run_same_length two_refs"
    by (simp_all add: two_refs_def demo_wellformed)
       (simp_all add: demo_env_def demo_params_def starts_def freqs_aligned_def)
  have c: "fst (run_with two_refs demo_params 2 [0, 1]
              (freq_diff (ref_freqs two_refs) 0 1) (Fin (1 / 100))) = [([0, 1], 0), ([0, 1], 1)]"
    "fst (oneref_result two_refs demo_params 0) = [([0], 0), ([0], 1)]"
    "fst (oneref_result two_refs demo_params 1) = [([1], 0), ([1], 1)]"
    by (simp_all add: oneref_result_def run_with_def two_refs_def demo_env_def demo_run_def)
  from two_ref_decay_differences_reported [OF a refl]
  show ?thesis by (simp add: c fit_diffs_def upt_rec del: One_nat_def)
qed

subsection \<open>C9: the fit start of a two-reference curve\<close>

text \<open>
  Claim C9: every call of \<^verbatim>\<open>alder.run\<close> for a two-reference curve gets as fit-start
  distance a maximum of start distances: with at most two reference populations the largest
  element of the whole vector of start distances, and with three or more the larger of the
  start distances of the two references of the pair.
\<close>

theorem two_ref_fit_start_is_max:
  assumes "Run 2 inds w nv d \<in> set (fst (main e p))"
  shows "if length (ref_freqs e) \<le> 2
         then max_element (starts e p) = Some d \<and> d \<in> set (starts e p)
              \<and> (\<forall>x \<in> set (starts e p). \<not> dbl_less d x)
         else \<exists>r1 r2. inds = [r1, r2] \<and> r1 < r2 \<and> r2 < length (ref_freqs e)
                \<and> r2 < length (starts e p)
                \<and> d = dbl_max (starts e p ! r1) (starts e p ! r2)
                \<and> d \<in> {starts e p ! r1, starts e p ! r2}
                \<and> \<not> dbl_less d (starts e p ! r1) \<and> \<not> dbl_less d (starts e p ! r2)"
proof -
  note ok = sat_event [OF sat_main_start assms]
  show ?thesis
  proof (cases "length (ref_freqs e) \<le> 2")
    case True
    with ok have "max_element (starts e p) = Some d"
      by (simp add: two_ref_start_ok_def)
    with max_element_is_max [of "starts e p" d] True show ?thesis by simp
  next
    case False
    with ok obtain r1 r2 where "inds = [r1, r2]" "r1 < r2" "r2 < length (ref_freqs e)"
        "r2 < length (starts e p)" "d = dbl_max (starts e p ! r1) (starts e p ! r2)"
      by (auto simp: two_ref_start_ok_def)
    with dbl_max_is_max [of "starts e p ! r1" "starts e p ! r2"] False show ?thesis
      by auto
  qed
qed

theorem two_ref_fit_start_is_max_witness:
  "Run 2 [0, 1] [1 / 4, 0] False (Fin (1 / 100)) \<in> set (fst (main two_refs demo_params))
   \<and> max_element (starts two_refs demo_params) = Some (Fin (1 / 100))
   \<and> \<not> dbl_less (Fin (1 / 100)) (Fin (1 / 200))"
proof -
  have ev: "Run 2 [0, 1] [1 / 4, 0] False (Fin (1 / 100))
              \<in> set (fst (main two_refs demo_params))"
    by (simp add: main_two_refs)
  have n: "length (ref_freqs two_refs) \<le> 2" "Fin (1 / 200) \<in> set (starts two_refs demo_params)"
    by (simp_all add: two_refs_def demo_env_def starts_def)
  from two_ref_fit_start_is_max [OF ev] n ev show ?thesis by auto
qed

subsection \<open>C10: external weights\<close>

text \<open>
  Claim C10 says that with external weights and no reference population with genotype data
  the run ends with the message that reference genotypes are needed. With fewer than two
  chromosomes the message is another one, that two chromosomes are needed to jackknife
  (line 229 is tried before line 231).
\<close>

theorem external_weights_one_chrom_message:
  "weightname weights_params = Some ''weights.txt''
   \<and> ref_freqs (no_refs 1) = []
   \<and> snd (main (no_refs 1) weights_params) = Inr ()
   \<and> Cannot_test_refgeno \<notin> set (fst (main (no_refs 1) weights_params))
   \<and> last (fst (main (no_refs 1) weights_params)) = Cannot_test_chroms"
  by (simp add: main_no_refs_one_chrom)
     (simp add: weights_params_def demo_params_def no_refs_def demo_env_def)

text \<open>
  Claim C10 as amended: with external weights, no reference population with genotype data,
  and a mincount that does not exceed the number of mixed individuals, the run takes the
  two-reference path (one call of \<^verbatim>\<open>alder.run\<close> with two references, no reference indices
  and the external weights; the curve is printed and fitted), runs no admixture test, and
  finishes with the message that it cannot test for admixture: because two chromosomes are
  needed to jackknife when fewer than two are used, and because reference genotypes are
  needed otherwise.
\<close>

theorem external_weights_no_test:
  assumes "weightname p = Some wn" and "ref_freqs e = []"
    and "mincount p \<le> num_mixed_indivs e"
    and "max_element (starts e p) = Some d"
  shows "main e p =
     ((if get_num_chroms_used e < 2 \<and> print_raw_jackknife p then [Warn_jackknife] else [])
        @ Form_2_ref # curve_events e p 2 [] (process_weights e wn) d
        @ [if get_num_chroms_used e < 2 then Cannot_test_chroms else Cannot_test_refgeno],
      Inr ())"
  using assms(2)
  by (simp add: main_eq [OF assms(3) determine_refs_weights [OF assms(1)]]
        one_or_two_refs_cannot [OF assms(4)] form_events_def)

theorem external_weights_no_test_witness:
  "main (no_refs 22) weights_params =
     ([Form_2_ref, Run 2 [] [1, - 1] False (Fin (1 / 200)), Output_curve_data,
       Plot_ascii_curve (Fin (1 / 200)), Print_fit ([], 0) False,
       Print_fit ([], 1) False, Cannot_test_refgeno],
      Inr ())"
proof -
  have a: "weightname weights_params = Some ''weights.txt''" "ref_freqs (no_refs 22) = []"
    "mincount weights_params \<le> num_mixed_indivs (no_refs 22)"
    "max_element (starts (no_refs 22) weights_params) = Some (Fin (1 / 200))"
    by (simp_all add: weights_params_def demo_params_def no_refs_def demo_env_def starts_def)
  from external_weights_no_test [OF a]
  show ?thesis
    by (simp add: curve_events_def run_with_def weights_params_def demo_params_def no_refs_def
          demo_env_def demo_run_def)
qed

subsection \<open>C6 and C8\<close>

text \<open>
  Claim C6 compares the naive and the accelerated computation of the curve up to a
  floating-point tolerance. Both computations are inside \<^verbatim>\<open>Alder::run\<close>; the driver only
  passes \<^verbatim>\<open>pars.use_naive_algo\<close> on, which is what the \<open>Run\<close> events record. Claim C8 is
  about the verdict \<^verbatim>\<open>ExpFitALD::test_and_print_oneref_curve\<close> returns; the driver stores
  that verdict and, in its summary, prints the smaller of the z-scores of decay and
  amplitude. Neither is stated here.
\<close>

end
